theory Spec2Isabelle
  imports Complex_Main
begin

section \<open>Conventions of the embedding\<close>

text \<open>
  The Python sources are \<^verbatim>\<open>src/options_strategies.py\<close>,
  \<^verbatim>\<open>src/modules/trading_strategy.py\<close>, \<^verbatim>\<open>src/modules/portfolio_manager.py\<close>,
  \<^verbatim>\<open>src/modules/technical_analysis.py\<close> and \<^verbatim>\<open>src/options_analysis.py\<close>; the trade store
  is also written by \<^verbatim>\<open>src/modules/paper_trading.py\<close>.

  \<^item> Python floats are idealised as \<^typ>\<open>real\<close>: rounding, infinities and signed zeros
    are not represented. A pandas \<^verbatim>\<open>NaN\<close> in a series is \<^term>\<open>None\<close>; in a signal dict
    it is a value of its own beside \<^verbatim>\<open>None\<close> and the numbers.
  \<^item> Every exception is a value \<^verbatim>\<open>Inl e\<close> of the result type \<^verbatim>\<open>py_error + 'a\<close>; a Python
    \<^verbatim>\<open>return None\<close> is \<^verbatim>\<open>Inr None\<close>.
  \<^item> The market data providers (\<^verbatim>\<open>get_historical_data\<close>, \<^verbatim>\<open>get_options_chain\<close>,
    \<^verbatim>\<open>get_analyst_ratings\<close>), the clock and the pickled scoring model are inputs.
  \<^item> A trade dict of the store is a \<^theory_text>\<open>record\<close> whose keys are fields with three
    states: the key is absent, the key holds \<^verbatim>\<open>None\<close> (JSON \<^verbatim>\<open>null\<close>), or it holds a value.
    Subscripting an absent key raises KeyError; using \<^verbatim>\<open>None\<close> as a number raises TypeError.
\<close>

datatype py_error =
    KeyError string
  | NameError string
  | AttributeError string
  | TypeError
  | ValueError string
  | IndexError
  | ZeroDivisionError

definition bindE :: "py_error + 'a \<Rightarrow> ('a \<Rightarrow> py_error + 'b) \<Rightarrow> py_error + 'b" where
  "bindE m f = (case m of Inl e \<Rightarrow> Inl e | Inr x \<Rightarrow> f x)"

text \<open>A key of a trade dict: absent, holding \<^verbatim>\<open>None\<close>, or holding a value.\<close>

datatype 'a field = Missing | Null | Val 'a

text \<open>
  \<^verbatim>\<open>d[k]\<close> alone: KeyError on an absent key, and the value, which may be \<^verbatim>\<open>None\<close>. Then the
  use of a value as a number, or as the list a loop runs over: TypeError on \<^verbatim>\<open>None\<close>.
\<close>

definition subscript :: "string \<Rightarrow> 'a field \<Rightarrow> py_error + 'a option" where
  "subscript k v =
     (case v of Missing \<Rightarrow> Inl (KeyError k) | Null \<Rightarrow> Inr None | Val x \<Rightarrow> Inr (Some x))"

definition need :: "'a option \<Rightarrow> py_error + 'a" where
  "need v = (case v of None \<Rightarrow> Inl TypeError | Some x \<Rightarrow> Inr x)"

text \<open>
  \<^verbatim>\<open>d[k]\<close> where the value is used at once, with no other read in between: KeyError on an
  absent key, TypeError on \<^verbatim>\<open>None\<close>.
\<close>

definition item :: "string \<Rightarrow> 'a field \<Rightarrow> py_error + 'a" where
  "item k v = bindE (subscript k v) need"

text \<open>
  \<^verbatim>\<open>d[k]\<close> on a signal dict: \<^term>\<open>None\<close> is a key that the dict does not have, and the
  value of a key that it has may itself be \<^verbatim>\<open>None\<close>, one of the numbers of a signal dict.
\<close>

definition signal_item :: "string \<Rightarrow> 'a option \<Rightarrow> py_error + 'a" where
  "signal_item k v = (case v of None \<Rightarrow> Inl (KeyError k) | Some x \<Rightarrow> Inr x)"

section \<open>Options chain and strategy construction (\<^verbatim>\<open>options_strategies.py\<close>)\<close>

text \<open>One row of the frame returned by \<^verbatim>\<open>get_options_chain\<close>.\<close>

record quote =
  strike :: real
  optionType :: string
  expiration :: string
  lastPrice :: real
  volume :: real

text \<open>
  The frame of \<^verbatim>\<open>get_options_chain\<close>: its rows, or the frame without any column,
  \<^verbatim>\<open>pd.DataFrame()\<close>, that the provider returns when it fails or finds no expiry. Reading a
  column of the latter raises KeyError. Where the source asks \<^verbatim>\<open>.empty\<close> before it reads any
  column (the options statistics and the options branch of the monitoring), the list of
  rows alone stands for the frame, empty in both cases.
\<close>

datatype options_frame = NoColumns | Frame "quote list"

definition column :: "string \<Rightarrow> options_frame \<Rightarrow> py_error + quote list" where
  "column c df = (case df of NoColumns \<Rightarrow> Inl (KeyError c) | Frame rows \<Rightarrow> Inr rows)"



definition find_strike_prices :: "options_frame \<Rightarrow> real \<Rightarrow> real \<Rightarrow> py_error + real list" where
  "find_strike_prices chain current_price width_percentage =
     (let lower_bound = current_price * (1 - width_percentage);
          upper_bound = current_price * (1 + width_percentage)
      in bindE (column ''strike'' chain) (\<lambda>rows.
           Inr (sort (remdups (map strike
             (filter (\<lambda>q. strike q \<ge> lower_bound \<and> strike q \<le> upper_bound) rows))))))"







section \<open>Signal snapshots\<close>

text \<open>
  A number held in a signal dict: Python \<^verbatim>\<open>None\<close>, a float \<^verbatim>\<open>NaN\<close>, or a number.
  Arithmetic and ordering on \<^verbatim>\<open>None\<close> raise TypeError; on \<^verbatim>\<open>NaN\<close> arithmetic gives
  \<^verbatim>\<open>NaN\<close> and every ordering comparison is false.
\<close>

datatype pynum = PyNone | NaN | Num real

definition cmp :: "(real \<Rightarrow> real \<Rightarrow> bool) \<Rightarrow> pynum \<Rightarrow> pynum \<Rightarrow> py_error + bool" where
  "cmp rel a b =
     (case (a, b) of
        (PyNone, _) \<Rightarrow> Inl TypeError
      | (_, PyNone) \<Rightarrow> Inl TypeError
      | (Num x, Num y) \<Rightarrow> Inr (rel x y)
      | _ \<Rightarrow> Inr False)"

definition arith :: "(real \<Rightarrow> real \<Rightarrow> real) \<Rightarrow> pynum \<Rightarrow> pynum \<Rightarrow> py_error + pynum" where
  "arith f a b =
     (case (a, b) of
        (PyNone, _) \<Rightarrow> Inl TypeError
      | (_, PyNone) \<Rightarrow> Inl TypeError
      | (Num x, Num y) \<Rightarrow> Inr (Num (f x y))
      | _ \<Rightarrow> Inr NaN)"

text \<open>
  The dict returned by \<^verbatim>\<open>get_technical_signals\<close>. The keys from \<^verbatim>\<open>macd\<close> on exist only
  in the full snapshot: there \<^term>\<open>None\<close> is an absent key, whose subscript raises KeyError.
\<close>

record snapshot =
  price :: pynum
  rsi :: pynum
  oversold :: bool
  overbought :: bool
  uptrend :: bool
  support :: pynum
  resistance :: pynum
  near_support :: bool
  near_resistance :: bool
  sma_20 :: pynum
  sma_50 :: pynum
  macd :: "pynum option"
  macd_signal_line :: "pynum option"
  macd_bullish :: "bool option"
  bollinger_upper :: "pynum option"
  bollinger_lower :: "pynum option"
  bollinger_width :: "pynum option"
  below_bollinger :: "bool option"
  above_bollinger :: "bool option"
  atr :: "pynum option"
  atr_percent :: "pynum option"

definition null_snapshot :: snapshot where
  "null_snapshot =
     \<lparr>price = PyNone, rsi = PyNone, oversold = False, overbought = False, uptrend = False,
      support = PyNone, resistance = PyNone, near_support = False, near_resistance = False,
      sma_20 = PyNone, sma_50 = PyNone,
      macd = None, macd_signal_line = None, macd_bullish = None,
      bollinger_upper = None, bollinger_lower = None, bollinger_width = None,
      below_bollinger = None, above_bollinger = None, atr = None, atr_percent = None\<rparr>"

text \<open>The dict returned by \<^verbatim>\<open>get_options_signals\<close>.\<close>

record options_signals =
  bullish_flow :: bool
  strong_flow :: bool
  put_call_ratio :: real
  high_activity :: bool

section \<open>Strategy selection (\<^verbatim>\<open>OptionsStrategy.select_best_strategy\<close>)\<close>











section \<open>Indicators (\<^verbatim>\<open>modules/technical_analysis.py\<close>)\<close>

text \<open>A pandas series of floats; \<^term>\<open>None\<close> is \<^verbatim>\<open>NaN\<close>.\<close>

type_synonym series = "real option list"

text \<open>
  \<^verbatim>\<open>s.rolling(window).agg()\<close>: position \<open>i\<close> aggregates the \<open>window\<close> values ending at
  \<open>i\<close>; it is \<^verbatim>\<open>NaN\<close> while fewer than \<open>window\<close> values exist or one of them is \<^verbatim>\<open>NaN\<close>.
\<close>

definition rolling :: "nat \<Rightarrow> (real list \<Rightarrow> real) \<Rightarrow> series \<Rightarrow> series" where
  "rolling window agg s =
     map (\<lambda>i. if i + 1 < window then None
               else (let win = take window (drop (i + 1 - window) s)
                     in if None \<in> set win then None else Some (agg (map the win))))
         [0 ..< length s]"

definition mean :: "real list \<Rightarrow> real" where
  "mean xs = sum_list xs / real (length xs)"

definition maximum :: "real list \<Rightarrow> real" where
  "maximum xs = fold max (tl xs) (hd xs)"

definition minimum :: "real list \<Rightarrow> real" where
  "minimum xs = fold min (tl xs) (hd xs)"

definition calculate_sma :: "series \<Rightarrow> nat \<Rightarrow> series" where
  "calculate_sma data window = rolling window mean data"

text \<open>\<^verbatim>\<open>data.diff()\<close>: the first entry is \<^verbatim>\<open>NaN\<close>.\<close>

definition diff :: "series \<Rightarrow> series" where
  "diff s =
     map (\<lambda>i. if i = 0 then None
               else (case (s ! i, s ! (i - 1)) of
                       (Some a, Some b) \<Rightarrow> Some (a - b)
                     | _ \<Rightarrow> None))
         [0 ..< length s]"

text \<open>
  \<^verbatim>\<open>calculate_rsi\<close>. \<^verbatim>\<open>delta.where(c, 0)\<close> puts 0 where the condition is false, also on
  \<^verbatim>\<open>NaN\<close>. With a zero average loss the float quotient is infinite and the index is 100,
  or \<^verbatim>\<open>NaN\<close> when the average gain is zero too.
\<close>

definition calculate_rsi :: "series \<Rightarrow> nat \<Rightarrow> series" where
  "calculate_rsi data periods =
     (let delta = diff data;
          gain = rolling periods mean
                   (map (\<lambda>d. case d of Some x \<Rightarrow> Some (if x > 0 then x else 0)
                                       | None \<Rightarrow> Some 0) delta);
          loss = rolling periods mean
                   (map (\<lambda>d. case d of Some x \<Rightarrow> Some (- (if x < 0 then x else 0))
                                       | None \<Rightarrow> Some 0) delta)
      in map (\<lambda>(g, l). case (g, l) of
                (Some a, Some b) \<Rightarrow>
                  (if b = 0 then (if a = 0 then None else Some 100)
                   else Some (100 - 100 / (1 + a / b)))
              | _ \<Rightarrow> None)
             (zip gain loss))"

text \<open>A data frame: the length of its index and its columns by name.\<close>

record frame =
  index_len :: nat
  columns :: "(string \<times> series) list"

definition empty_frame :: "frame \<Rightarrow> bool" where
  "empty_frame df = (index_len df = 0 \<or> columns df = [])"

definition getcol :: "frame \<Rightarrow> string \<Rightarrow> py_error + series" where
  "getcol df c = (case map_of (columns df) c of None \<Rightarrow> Inl (KeyError c) | Some s \<Rightarrow> Inr s)"

definition setcol :: "frame \<Rightarrow> string \<Rightarrow> series \<Rightarrow> frame" where
  "setcol df c s = df\<lparr>columns := (c, s) # filter (\<lambda>(k, _). k \<noteq> c) (columns df)\<rparr>"

definition calculate_support_resistance :: "frame \<Rightarrow> nat \<Rightarrow> py_error + series \<times> series" where
  "calculate_support_resistance df window =
     bindE (getcol df ''High'') (\<lambda>high.
     bindE (getcol df ''Low'') (\<lambda>low.
       Inr (rolling window minimum low, rolling window maximum high)))"


section \<open>Technical signals (\<^verbatim>\<open>TradingStrategy.get_technical_signals\<close>)\<close>

definition cell :: "real option \<Rightarrow> pynum" where
  "cell c = (case c of None \<Rightarrow> NaN | Some x \<Rightarrow> Num x)"

text \<open>\<^verbatim>\<open>s.iloc[-1] if not s.empty else None\<close> and the unguarded \<^verbatim>\<open>s.iloc[-1]\<close>.\<close>

definition last_or_none :: "series \<Rightarrow> pynum" where
  "last_or_none s = (if s = [] then PyNone else cell (last s))"

definition iloc_last :: "series \<Rightarrow> py_error + pynum" where
  "iloc_last s = (if s = [] then Inl IndexError else Inr (cell (last s)))"

text \<open>\<^verbatim>\<open>s.isna().all()\<close>.\<close>

definition all_na :: "series \<Rightarrow> bool" where
  "all_na s = list_all (\<lambda>c. c = None) s"

text \<open>
  Reading a variable: \<^verbatim>\<open>scope\<close> lists the names bound where the read happens, with
  their values; any other name raises NameError.
\<close>

definition resolve :: "(string \<times> 'a) list \<Rightarrow> string \<Rightarrow> py_error + 'a" where
  "resolve scope name =
     (case map_of scope name of None \<Rightarrow> Inl (NameError name) | Some v \<Rightarrow> Inr v)"

text \<open>\<^verbatim>\<open>x != 0\<close> on a value that may be \<^verbatim>\<open>None\<close> or \<^verbatim>\<open>NaN\<close>: true on both.\<close>

definition nonzero :: "pynum \<Rightarrow> bool" where
  "nonzero v = (case v of Num x \<Rightarrow> x \<noteq> 0 | _ \<Rightarrow> True)"

text \<open>
  The first half of the \<^verbatim>\<open>try\<close> block (lines 46 to 59): the three columns the function
  computes, and the support and resistance series.
\<close>

definition compute_indicators :: "frame \<Rightarrow> py_error + frame \<times> series \<times> series" where
  "compute_indicators df =
     bindE (getcol df ''Close'') (\<lambda>close.
     let df1 = setcol df ''RSI'' (calculate_rsi close 14) in
     bindE (getcol df1 ''RSI'') (\<lambda>rsi_col.
     if all_na rsi_col then Inl (ValueError ''RSI calculation failed'') else
     bindE (getcol df1 ''Close'') (\<lambda>close1.
     let df2 = setcol df1 ''SMA_20'' (calculate_sma close1 20) in
     bindE (getcol df2 ''Close'') (\<lambda>close2.
     let df3 = setcol df2 ''SMA_50'' (calculate_sma close2 50) in
     bindE (getcol df3 ''SMA_20'') (\<lambda>sma20_col.
     bindE (if all_na sma20_col then Inr True
            else bindE (getcol df3 ''SMA_50'') (\<lambda>sma50_col. Inr (all_na sma50_col)))
       (\<lambda>failed.
     if failed then Inl (ValueError ''SMA calculation failed'') else
     bindE (calculate_support_resistance df3 20) (\<lambda>(support_s, resistance_s).
     if support_s = [] \<or> resistance_s = []
     then Inl (ValueError ''Support/Resistance calculation failed'')
     else Inr (df3, support_s, resistance_s))))))))"

text \<open>
  The second half (lines 62 to 111): the latest values and the signals dict. The dict
  display evaluates its entries in order. \<^verbatim>\<open>rolling_mean\<close> is read in the entry
  \<^verbatim>\<open>bollinger_width\<close>; the series-valued names bound at that point are \<^verbatim>\<open>support\<close> and
  \<^verbatim>\<open>resistance\<close>, and neither the module nor the builtins bind \<^verbatim>\<open>rolling_mean\<close>.
\<close>

definition build_signals :: "frame \<Rightarrow> series \<Rightarrow> series \<Rightarrow> py_error + snapshot" where
  "build_signals df support_s resistance_s =
     bindE (getcol df ''Close'') (\<lambda>close.
     let current_price = last_or_none close in
     bindE (getcol df ''RSI'') (\<lambda>rsi_col.
     let current_rsi = last_or_none rsi_col in
     bindE (getcol df ''SMA_20'') (\<lambda>sma20_col.
     let sma20 = last_or_none sma20_col in
     bindE (getcol df ''SMA_50'') (\<lambda>sma50_col.
     let sma50 = last_or_none sma50_col in
     bindE (bindE (getcol df ''MACD'') iloc_last) (\<lambda>current_macd.
     bindE (bindE (getcol df ''MACD_signal'') iloc_last) (\<lambda>current_signal.
     bindE (bindE (getcol df ''Bollinger_Upper'') iloc_last) (\<lambda>current_upper.
     bindE (bindE (getcol df ''Bollinger_Lower'') iloc_last) (\<lambda>current_lower.
     bindE (bindE (getcol df ''ATR'') iloc_last) (\<lambda>current_atr.
     if current_price = PyNone \<or> current_rsi = PyNone \<or> sma20 = PyNone \<or> sma50 = PyNone
     then Inl (ValueError ''Failed to get current indicator values'') else
     bindE (cmp (<) current_rsi (Num 30)) (\<lambda>oversold_v.
     bindE (cmp (>) current_rsi (Num 70)) (\<lambda>overbought_v.
     bindE (cmp (>) sma20 sma50) (\<lambda>uptrend_v.
     let support_v = last_or_none support_s;
         resistance_v = last_or_none resistance_s in
     bindE (if support_s \<noteq> []
            then bindE (arith (*) (cell (last support_s)) (Num 1.02)) (cmp (\<le>) current_price)
            else Inr False) (\<lambda>near_support_v.
     bindE (if resistance_s \<noteq> []
            then bindE (arith (*) (cell (last resistance_s)) (Num 0.98)) (cmp (\<ge>) current_price)
            else Inr False) (\<lambda>near_resistance_v.
     bindE (cmp (>) current_macd current_signal) (\<lambda>macd_bullish_v.
     bindE (resolve [(''support'', support_s), (''resistance'', resistance_s)] ''rolling_mean'')
       (\<lambda>rolling_mean.
     bindE (iloc_last rolling_mean) (\<lambda>middle.
     bindE (if nonzero middle
            then bindE (arith (-) current_upper current_lower) (\<lambda>w. arith (/) w middle)
            else Inr (Num 0)) (\<lambda>width_v.
     bindE (cmp (<) current_price current_lower) (\<lambda>below_v.
     bindE (cmp (>) current_price current_upper) (\<lambda>above_v.
     bindE (if nonzero current_price
            then bindE (arith (/) current_atr current_price) (\<lambda>q. arith (*) q (Num 100))
            else Inr (Num 0)) (\<lambda>atr_percent_v.
     Inr \<lparr>price = current_price, rsi = current_rsi, oversold = oversold_v,
          overbought = overbought_v, uptrend = uptrend_v,
          support = support_v, resistance = resistance_v,
          near_support = near_support_v, near_resistance = near_resistance_v,
          sma_20 = sma20, sma_50 = sma50,
          macd = Some current_macd, macd_signal_line = Some current_signal,
          macd_bullish = Some macd_bullish_v,
          bollinger_upper = Some current_upper, bollinger_lower = Some current_lower,
          bollinger_width = Some width_v,
          below_bollinger = Some below_v, above_bollinger = Some above_v,
          atr = Some current_atr, atr_percent = Some atr_percent_v\<rparr>
     )))))))))))))))))))))"

definition technical_signals_body :: "frame \<Rightarrow> py_error + snapshot" where
  "technical_signals_body df =
     bindE (compute_indicators df) (\<lambda>(df3, support_s, resistance_s).
       build_signals df3 support_s resistance_s)"

text \<open>
  \<^verbatim>\<open>hist\<close> is what \<^verbatim>\<open>get_historical_data(self.symbol)\<close> returned: a frame, or \<^verbatim>\<open>None\<close>.
  Every exception of the body is caught and answered with the null snapshot.
\<close>

definition get_technical_signals :: "frame option \<Rightarrow> snapshot" where
  "get_technical_signals hist =
     (case hist of
        None \<Rightarrow> null_snapshot
      | Some df \<Rightarrow>
          if empty_frame df \<or> index_len df < 50 then null_snapshot
          else (case technical_signals_body df of
                  Inl e \<Rightarrow> null_snapshot
                | Inr signals \<Rightarrow> signals))"


section \<open>Options flow and analyst signals\<close>

text \<open>
  \<^verbatim>\<open>calculate_options_statistics\<close> returns an empty dict on an empty chain, so that the
  first subscript of \<^verbatim>\<open>get_options_signals\<close> raises KeyError. \<^verbatim>\<open>totalValue\<close> is the
  column \<^verbatim>\<open>volume * lastPrice * 100\<close> that \<^verbatim>\<open>get_options_chain\<close> adds.
\<close>

definition totalValue :: "quote \<Rightarrow> real" where
  "totalValue q = volume q * lastPrice q * 100"

record options_statistics =
  total_call_volume :: real
  total_put_volume :: real
  stat_put_call_ratio :: real
  total_call_value :: real
  total_put_value :: real
  net_money_flow :: real
  money_flow_ratio :: real

definition calculate_options_statistics :: "quote list \<Rightarrow> options_statistics option" where
  "calculate_options_statistics options_df =
     (if options_df = [] then None
      else
        (let calls = filter (\<lambda>q. optionType q = ''CALL'') options_df;
             puts = filter (\<lambda>q. optionType q = ''PUT'') options_df;
             tcv = sum_list (map totalValue calls);
             tpv = sum_list (map totalValue puts);
             net = tcv - tpv
         in Some \<lparr>total_call_volume = sum_list (map volume calls),
                  total_put_volume = sum_list (map volume puts),
                  stat_put_call_ratio =
                    sum_list (map volume puts) / max (sum_list (map volume calls)) 1,
                  total_call_value = tcv, total_put_value = tpv,
                  net_money_flow = net,
                  money_flow_ratio = (if tcv + tpv > 0 then net / (tcv + tpv) else 0)\<rparr>))"

definition get_options_signals :: "quote list \<Rightarrow> py_error + options_signals" where
  "get_options_signals options_df =
     (case calculate_options_statistics options_df of
        None \<Rightarrow> Inl (KeyError ''net_money_flow'')
      | Some stats \<Rightarrow>
          Inr \<lparr>bullish_flow = net_money_flow stats > 0,
               strong_flow = \<bar>money_flow_ratio stats\<bar> > 0.3,
               put_call_ratio = stat_put_call_ratio stats,
               high_activity = total_call_volume stats + total_put_volume stats > 1000\<rparr>)"

text \<open>
  A value of the ratings dict that \<^verbatim>\<open>get_analyst_signals\<close> passes to \<^verbatim>\<open>float\<close>: the key is
  absent, or its text does not parse (such as \<^verbatim>\<open>N/A\<close>), or it is a number.
\<close>

datatype rating_value = Absent | Unparsable | Parsed real

record ratings =
  Recommendation :: "string option"
  Mean_Rating :: rating_value
  Target_Price :: rating_value

record analyst_signals =
  recommendation :: string
  mean_rating :: real
  bullish :: bool
  bearish :: bool
  target_price :: real

definition to_float :: "real \<Rightarrow> rating_value \<Rightarrow> py_error + real" where
  "to_float dflt v =
     (case v of Absent \<Rightarrow> Inr dflt
              | Unparsable \<Rightarrow> Inl (ValueError ''could not convert string to float'')
              | Parsed x \<Rightarrow> Inr x)"

definition get_analyst_signals :: "ratings \<Rightarrow> py_error + analyst_signals" where
  "get_analyst_signals r =
     (let rec = (case Recommendation r of None \<Rightarrow> ''HOLD'' | Some x \<Rightarrow> x) in
      bindE (to_float 3.0 (Mean_Rating r)) (\<lambda>m.
      bindE (to_float 0 (Target_Price r)) (\<lambda>t.
        Inr \<lparr>recommendation = rec, mean_rating = m,
             bullish = (rec \<in> set [''BUY'', ''STRONG_BUY'']),
             bearish = (rec \<in> set [''SELL'', ''STRONG_SELL'']),
             target_price = t\<rparr>)))"

section \<open>Entry decision (\<^verbatim>\<open>TradingStrategy.should_enter_trade\<close>)\<close>

text \<open>
  The attribute \<^verbatim>\<open>ml_model\<close> of a strategy object: never set (a strategy built outside
  \<^verbatim>\<open>PortfolioManager\<close>), set to \<^verbatim>\<open>None\<close> (the pickle could not be loaded), or a loaded
  model, given by the probability \<^verbatim>\<open>predict_proba([features])[0][1]\<close>. A loaded model
  is taken to be truthy.
\<close>

datatype ml_attr = NoAttribute | NoModel | Model "pynum list \<Rightarrow> real"

text \<open>Short-circuit \<^verbatim>\<open>or\<close> and \<^verbatim>\<open>and\<close> whose right operand may raise.\<close>

definition orE :: "bool \<Rightarrow> (py_error + bool) \<Rightarrow> py_error + bool" where
  "orE a b = (if a then Inr True else b)"

definition andE :: "(py_error + bool) \<Rightarrow> (py_error + bool) \<Rightarrow> py_error + bool" where
  "andE a b = bindE a (\<lambda>x. if x then b else Inr False)"

text \<open>Formatting with \<^verbatim>\<open>:.2f\<close> raises TypeError on \<^verbatim>\<open>None\<close>.\<close>

definition fmt2f :: "pynum \<Rightarrow> py_error + unit" where
  "fmt2f v = (if v = PyNone then Inl TypeError else Inr ())"

text \<open>
  Lines 171 to 187. The features are bound only inside the \<^verbatim>\<open>if\<close>; the call of
  \<^verbatim>\<open>self.ml_model.predict_proba\<close> and the test of \<^verbatim>\<open>prob\<close> stand after it, at the level of
  the \<^verbatim>\<open>if\<close>, and run whether or not a model is attached.
\<close>

definition ml_probability ::
  "ml_attr \<Rightarrow> snapshot \<Rightarrow> options_signals \<Rightarrow> analyst_signals \<Rightarrow> py_error + real" where
  "ml_probability ml tech_signals opts analyst =
     (case ml of
        NoAttribute \<Rightarrow> Inl (AttributeError ''ml_model'')
      | NoModel \<Rightarrow> Inl (AttributeError ''predict_proba'')
      | Model predict \<Rightarrow>
          bindE (arith (-) (sma_20 tech_signals) (sma_50 tech_signals)) (\<lambda>trend.
          bindE (signal_item ''macd'' (macd tech_signals)) (\<lambda>m.
          bindE (signal_item ''macd_signal_line'' (macd_signal_line tech_signals)) (\<lambda>sl.
          bindE (arith (-) m sl) (\<lambda>hist.
            Inr (predict [rsi tech_signals, trend, hist, Num (put_call_ratio opts),
                          Num (if bullish_flow opts then 1 else 0),
                          Num (mean_rating analyst)]))))))"

definition equity_conditions :: "snapshot \<Rightarrow> analyst_signals \<Rightarrow> py_error + bool" where
  "equity_conditions tech_signals analyst =
     andE (orE (oversold tech_signals) (cmp (<) (rsi tech_signals) (Num 40)))
    (andE (orE (near_support tech_signals)
               (bindE (arith (*) (support tech_signals) (Num 1.05))
                      (cmp (\<le>) (price tech_signals))))
    (andE (orE (uptrend tech_signals) (cmp (>) (price tech_signals) (sma_20 tech_signals)))
          (Inr (bullish analyst))))"

definition options_conditions ::
  "snapshot \<Rightarrow> options_signals \<Rightarrow> analyst_signals \<Rightarrow> py_error + bool" where
  "options_conditions tech_signals opts analyst =
     andE (orE (oversold tech_signals) (cmp (<) (rsi tech_signals) (Num 45)))
       (Inr (bullish_flow opts
             \<and> (strong_flow opts \<or> put_call_ratio opts < 0.8)
             \<and> high_activity opts
             \<and> bullish analyst))"

text \<open>
  The body of the \<^verbatim>\<open>try\<close> block once the technical snapshot is there. \<^verbatim>\<open>chain\<close> is the
  frame of \<^verbatim>\<open>get_options_chain(symbol, num_expiries=3)\<close>.
\<close>

definition enter_decision ::
  "ml_attr \<Rightarrow> snapshot \<Rightarrow> quote list \<Rightarrow> ratings \<Rightarrow> py_error + string option" where
  "enter_decision ml tech_signals chain r =
     (if price tech_signals = PyNone then Inr None
      else
        bindE (get_options_signals chain) (\<lambda>opts.
        bindE (get_analyst_signals r) (\<lambda>analyst.
        bindE (ml_probability ml tech_signals opts analyst) (\<lambda>prob.
        if prob < 0.5 then Inr None
        else
          bindE (fmt2f (price tech_signals)) (\<lambda>_.
          bindE (fmt2f (rsi tech_signals)) (\<lambda>_.
          bindE (equity_conditions tech_signals analyst) (\<lambda>equity_ok.
          bindE (options_conditions tech_signals opts analyst) (\<lambda>options_ok.
            if equity_ok then Inr (Some ''equity'')
            else if options_ok then Inr (Some ''options'')
            else Inr None))))))))"

definition should_enter_trade ::
  "ml_attr \<Rightarrow> frame option \<Rightarrow> quote list \<Rightarrow> ratings \<Rightarrow> string option" where
  "should_enter_trade ml hist chain r =
     (case enter_decision ml (get_technical_signals hist) chain r of
        Inl e \<Rightarrow> None
      | Inr decision \<Rightarrow> decision)"


section \<open>Trades (\<^verbatim>\<open>data/paper_trades.json\<close>)\<close>

text \<open>
  One leg of an options trade and one trade dict. The key \<^verbatim>\<open>type\<close> is \<^verbatim>\<open>trade_type\<close>
  here, the keys \<^verbatim>\<open>expiry\<close>, \<^verbatim>\<open>expiration\<close>, \<^verbatim>\<open>max_loss\<close> and \<^verbatim>\<open>max_profit\<close> carry the
  prefix \<^verbatim>\<open>trade_\<close>, and the keys of a leg the prefix \<^verbatim>\<open>leg_\<close>. The key \<^verbatim>\<open>signals\<close>, a copy
  of the signal dicts that no decision reads, is left out. \<^verbatim>\<open>now\<close> is the formatted
  \<^verbatim>\<open>datetime.now()\<close>. A leg has its key \<^verbatim>\<open>quantity\<close> or not (\<^verbatim>\<open>leg.get('quantity', 1)\<close>); the
  keys \<^verbatim>\<open>symbol\<close>, \<^verbatim>\<open>type\<close>, \<^verbatim>\<open>status\<close> and \<^verbatim>\<open>entry_date\<close>, which every writer of the store sets,
  are plain values.
\<close>

record leg =
  leg_type :: string
  leg_action :: string
  leg_strike :: real
  leg_premium :: real
  leg_quantity :: "int option"

record trade =
  symbol :: string
  trade_type :: string
  action :: "string field"
  quantity :: "int field"
  entry_price :: "real field"
  stop_loss :: "real field"
  take_profit :: "real field"
  status :: string
  entry_date :: string
  exit_date :: "string field"
  exit_price :: "real field"
  profit :: "real field"
  strategy_type :: "string field"
  trade_expiry :: "string field"
  trade_expiration :: "string field"
  trade_max_loss :: "real field"
  trade_max_profit :: "real field"
  legs :: "leg list field"

section \<open>Building an equity trade (\<^verbatim>\<open>TradingStrategy.execute_trade\<close>)\<close>

text \<open>\<^verbatim>\<open>x and x > 0\<close>: \<^verbatim>\<open>None\<close> and 0 are falsy, \<^verbatim>\<open>NaN > 0\<close> is false.\<close>

definition positive :: "pynum \<Rightarrow> bool" where
  "positive v = (case v of Num x \<Rightarrow> x \<noteq> 0 \<and> x > 0 | _ \<Rightarrow> False)"

text \<open>Python's \<^verbatim>\<open>int\<close> of a float truncates towards zero.\<close>

definition py_int :: "real \<Rightarrow> int" where
  "py_int x = (if x \<ge> 0 then \<lfloor>x\<rfloor> else \<lceil>x\<rceil>)"

text \<open>\<^verbatim>\<open>int(risk_amount / current_price)\<close>.\<close>

definition position_quantity :: "real \<Rightarrow> pynum \<Rightarrow> py_error + int" where
  "position_quantity risk_amount current_price =
     (case current_price of
        PyNone \<Rightarrow> Inl TypeError
      | NaN \<Rightarrow> Inl (ValueError ''cannot convert float NaN to integer'')
      | Num p \<Rightarrow> if p = 0 then Inl ZeroDivisionError else Inr (py_int (risk_amount / p)))"

definition risk_bands :: "snapshot \<Rightarrow> py_error + pynum \<times> pynum" where
  "risk_bands tech_signals =
     bindE (signal_item ''atr'' (atr tech_signals)) (\<lambda>a.
       if positive a then
         bindE (arith (*) (Num 1.5) a) (\<lambda>d.
         bindE (arith (-) (price tech_signals) d) (\<lambda>stop_loss_price.
         bindE (arith (*) (Num 3.0) a) (\<lambda>u.
         bindE (arith (+) (price tech_signals) u) (\<lambda>take_profit_price.
           Inr (stop_loss_price, take_profit_price)))))
       else
         bindE (arith (*) (price tech_signals) (Num 0.95)) (\<lambda>stop_loss_price.
         bindE (arith (*) (price tech_signals) (Num 1.15)) (\<lambda>take_profit_price.
           Inr (stop_loss_price, take_profit_price))))"

text \<open>A number as the trade dict holds it; \<^verbatim>\<open>NaN\<close> has no place among the reals.\<close>

definition to_json :: "pynum \<Rightarrow> real field" where
  "to_json v = (case v of Num x \<Rightarrow> Val x | _ \<Rightarrow> Null)"

text \<open>
  \<^verbatim>\<open>execute_trade('equity')\<close>, up to the trade it returns; the caller appends the trade to
  the store. \<^verbatim>\<open>tech_signals\<close> is the snapshot of \<^verbatim>\<open>self.get_technical_signals()\<close>. The trade
  dict reads the names \<^verbatim>\<open>stop_loss\<close> and \<^verbatim>\<open>take_profit\<close>; the numbers bound at that point
  are \<^verbatim>\<open>current_price\<close>, \<^verbatim>\<open>risk_amount\<close>, \<^verbatim>\<open>stop_loss_price\<close>, \<^verbatim>\<open>take_profit_price\<close> and
  \<^verbatim>\<open>quantity\<close>.
\<close>

definition execute_trade_equity ::
  "string \<Rightarrow> real \<Rightarrow> snapshot \<Rightarrow> quote list \<Rightarrow> ratings \<Rightarrow> string \<Rightarrow> py_error + trade option" where
  "execute_trade_equity symb current_capital tech_signals chain r now =
     (let current_price = price tech_signals;
          risk_amount = current_capital * 0.02 in
      bindE (risk_bands tech_signals) (\<lambda>(stop_loss_price, take_profit_price).
      bindE (get_options_signals chain) (\<lambda>_.
      bindE (get_analyst_signals r) (\<lambda>_.
      bindE (position_quantity risk_amount current_price) (\<lambda>qty.
      if qty < 1 then Inr None
      else
        (let scope = [(''current_price'', current_price), (''risk_amount'', Num risk_amount),
                      (''stop_loss_price'', stop_loss_price),
                      (''take_profit_price'', take_profit_price),
                      (''quantity'', Num (of_int qty))] in
         bindE (resolve scope ''stop_loss'') (\<lambda>sl.
         bindE (resolve scope ''take_profit'') (\<lambda>tp.
           Inr (Some \<lparr>symbol = symb, trade_type = ''equity'', action = Val ''buy'',
                      quantity = Val qty, entry_price = to_json current_price,
                      stop_loss = to_json sl, take_profit = to_json tp,
                      status = ''open'', entry_date = now, exit_date = Null,
                      exit_price = Null, profit = Null, strategy_type = Missing,
                      trade_expiry = Missing, trade_expiration = Missing,
                      trade_max_loss = Missing, trade_max_profit = Missing,
                      legs = Missing\<rparr>)))))))))"

section \<open>Monitoring open positions (\<^verbatim>\<open>TradingStrategy.monitor_positions\<close>)\<close>

text \<open>
  Line 343 of the source is indented by 15 columns, between the two enclosing levels;
  it is read at 16 columns, as the first statement after line 341 inside
  \<^verbatim>\<open>if trade['status'] == 'open'\<close>, with the \<^verbatim>\<open>elif\<close> of line 361 belonging to it.

  A division by zero has no real value and is the error ZeroDivisionError.
\<close>

definition close_equity :: "string \<Rightarrow> real \<Rightarrow> real \<Rightarrow> trade \<Rightarrow> py_error + trade" where
  "close_equity now current_price entry t =
     bindE (item ''quantity'' (quantity t)) (\<lambda>q.
       Inr (t\<lparr>status := ''closed'', exit_date := Val now,
              exit_price := Val current_price,
              profit := Val ((current_price - entry) * of_int q)\<rparr>))"

definition trail_stop :: "real \<Rightarrow> real \<Rightarrow> trade \<Rightarrow> py_error + trade" where
  "trail_stop pnl_percent current_price t =
     (if pnl_percent > 10 then
        (let new_stop = current_price * 0.95 in
         bindE (item ''stop_loss'' (stop_loss t)) (\<lambda>sl.
           Inr (if new_stop > sl then t\<lparr>stop_loss := Val new_stop\<rparr> else t)))
      else Inr t)"

definition exit_signal :: "real \<Rightarrow> real \<Rightarrow> real \<Rightarrow> trade \<Rightarrow> py_error + bool" where
  "exit_signal max_loss_pct pnl_percent current_price t =
     bindE (item ''stop_loss'' (stop_loss t)) (\<lambda>sl.
       orE (current_price \<le> sl)
         (bindE (item ''take_profit'' (take_profit t)) (\<lambda>tp.
            Inr (current_price \<ge> tp \<or> pnl_percent \<le> - (max_loss_pct * 100)))))"

definition monitor_equity :: "real \<Rightarrow> pynum \<Rightarrow> string \<Rightarrow> trade \<Rightarrow> py_error + trade" where
  "monitor_equity max_loss_pct current_price now t =
     bindE (item ''entry_price'' (entry_price t)) (\<lambda>entry.
       case current_price of
         PyNone \<Rightarrow> Inl TypeError
       | NaN \<Rightarrow>
           if entry = 0 then Inl ZeroDivisionError
           else bindE (item ''stop_loss'' (stop_loss t)) (\<lambda>_.
                bindE (item ''take_profit'' (take_profit t)) (\<lambda>_. Inr t))
       | Num p \<Rightarrow>
           if entry = 0 then Inl ZeroDivisionError
           else
             (let pnl_percent = (p - entry) / entry * 100 in
              bindE (trail_stop pnl_percent p t) (\<lambda>t1.
              bindE (exit_signal max_loss_pct pnl_percent p t1) (\<lambda>leave.
                if leave then close_equity now p entry t1 else Inr t1))))"

definition leg_count :: "leg \<Rightarrow> real" where
  "leg_count l = of_int (case leg_quantity l of None \<Rightarrow> 1 | Some q \<Rightarrow> q)"

text \<open>
  The contribution of one leg to \<^verbatim>\<open>current_value\<close>: nothing when the chain has no row of
  its strike, type and expiry.
\<close>

definition leg_current_value :: "quote list \<Rightarrow> string \<Rightarrow> leg \<Rightarrow> real" where
  "leg_current_value options_df expd l =
     (case filter (\<lambda>q. strike q = leg_strike l \<and> optionType q = leg_type l
                       \<and> expiration q = expd) options_df of
        [] \<Rightarrow> 0
      | q # _ \<Rightarrow>
          if leg_action l = ''buy'' then - (lastPrice q * 100 * leg_count l)
          else lastPrice q * 100 * leg_count l)"

definition initial_value :: "leg list \<Rightarrow> real" where
  "initial_value ls =
     sum_list (map (\<lambda>l. leg_count l * leg_premium l * 100
                         * (if leg_action l = ''sell'' then 1 else - 1)) ls)"

definition close_options :: "string \<Rightarrow> real \<Rightarrow> trade \<Rightarrow> trade" where
  "close_options now unrealized_pnl t =
     t\<lparr>status := ''closed'', exit_date := Val now, profit := Val unrealized_pnl\<rparr>"

text \<open>
  Lines 361 to 397. \<^verbatim>\<open>options_df\<close> holds the rows of the chain; it is empty also when the
  provider returned the frame without columns, and nothing is read then. The expiry of
  the trade is read once per leg; compared with \<^verbatim>\<open>None\<close> no row matches.
\<close>

definition monitor_options :: "quote list \<Rightarrow> string \<Rightarrow> trade \<Rightarrow> py_error + trade" where
  "monitor_options options_df now t =
     (if options_df = [] then Inr t
      else
        bindE (item ''legs'' (legs t)) (\<lambda>ls.
        bindE (if ls = [] then Inr 0
               else bindE (subscript ''expiration'' (trade_expiration t)) (\<lambda>expiry_read.
                      case expiry_read of
                        None \<Rightarrow> Inr 0
                      | Some expd \<Rightarrow>
                          Inr (sum_list (map (leg_current_value options_df expd) ls))))
          (\<lambda>current_value.
        let unrealized_pnl = current_value - initial_value ls in
        bindE (item ''stop_loss'' (stop_loss t)) (\<lambda>sl.
        bindE (orE (unrealized_pnl \<le> - sl)
                 (bindE (item ''take_profit'' (take_profit t)) (\<lambda>tp.
                    Inr (unrealized_pnl \<ge> tp)))) (\<lambda>leave.
          Inr (if leave then close_options now unrealized_pnl t else t))))))"

text \<open>One turn of the loop, for the price that \<^verbatim>\<open>get_technical_signals\<close> gave.\<close>

definition monitor_trade ::
  "real \<Rightarrow> pynum \<Rightarrow> quote list \<Rightarrow> string \<Rightarrow> trade \<Rightarrow> py_error + trade" where
  "monitor_trade max_loss_pct current_price options_df now t =
     (if status t = ''open'' then
        (if status t = ''open'' \<and> trade_type t = ''equity''
         then monitor_equity max_loss_pct current_price now t
         else if trade_type t = ''options'' then monitor_options options_df now t
         else Inr t)
      else Inr t)"

fun monitor_all ::
  "real \<Rightarrow> pynum \<Rightarrow> quote list \<Rightarrow> string \<Rightarrow> trade list \<Rightarrow> py_error + trade list" where
  "monitor_all max_loss_pct current_price options_df now [] = Inr []"
| "monitor_all max_loss_pct current_price options_df now (t # ts) =
     bindE (monitor_trade max_loss_pct current_price options_df now t) (\<lambda>t'.
     bindE (monitor_all max_loss_pct current_price options_df now ts) (\<lambda>ts'.
       Inr (t' # ts')))"

text \<open>
  \<^verbatim>\<open>monitor_positions\<close>: the price is that of the strategy's own snapshot; the updated
  list is saved and returned when no turn raised.
\<close>

definition monitor_positions ::
  "real \<Rightarrow> frame option \<Rightarrow> quote list \<Rightarrow> string \<Rightarrow> trade list \<Rightarrow> py_error + trade list" where
  "monitor_positions max_loss_pct hist options_df now trades =
     monitor_all max_loss_pct (price (get_technical_signals hist)) options_df now trades"


section \<open>The portfolio ledger (\<^verbatim>\<open>modules/portfolio_manager.py\<close>)\<close>

text \<open>
  The attributes of a \<^verbatim>\<open>TradingStrategy\<close> object: the methods of the class, the fields
  set by \<^verbatim>\<open>__init__\<close>, and \<^verbatim>\<open>ml_model\<close>, which \<^verbatim>\<open>initialize_portfolio\<close> attaches.
  Reading any other attribute raises AttributeError.
\<close>

definition TradingStrategy_attrs :: "string list" where
  "TradingStrategy_attrs =
     [''__init__'', ''get_technical_signals'', ''get_analyst_signals'',
      ''get_options_signals'', ''should_enter_trade'', ''execute_trade'',
      ''monitor_positions'', ''get_trading_stats'',
      ''symbol'', ''initial_capital'', ''current_capital'', ''positions'',
      ''max_loss_pct'', ''ml_model'']"

definition getattr :: "string list \<Rightarrow> string \<Rightarrow> py_error + unit" where
  "getattr attrs name = (if name \<in> set attrs then Inr () else Inl (AttributeError name))"

text \<open>
  The state of a \<^verbatim>\<open>PortfolioManager\<close> together with the trade store on disk. The
  strategies dict is fixed after \<^verbatim>\<open>__init__\<close> and is passed beside the ledger.
  \<^verbatim>\<open>max_position_size\<close> is a product with the current capital of the statistics, which
  may be \<^verbatim>\<open>NaN\<close>.
\<close>

record ledger =
  initial_capital :: real
  available_capital :: real
  max_position_size :: pynum
  store :: "trade list"

record strategy_obj =
  current_capital :: real
  ml_model :: ml_attr

record market =
  history :: "string \<Rightarrow> frame option"
  options_chain :: "string \<Rightarrow> nat \<Rightarrow> quote list"
  analyst_ratings :: "string \<Rightarrow> ratings"

text \<open>
  Lines 76 and 77: the capital a new trade uses. Both operands of the product are read
  before it is formed, \<^verbatim>\<open>quantity\<close> with the default 1 of \<^verbatim>\<open>trade.get\<close>.
\<close>

definition position_cost :: "trade \<Rightarrow> py_error + real" where
  "position_cost t =
     (if trade_type t = ''equity'' then
        bindE (subscript ''entry_price'' (entry_price t)) (\<lambda>e.
        let q = (case quantity t of Missing \<Rightarrow> Some 1 | Null \<Rightarrow> None | Val n \<Rightarrow> Some n) in
        bindE (need e) (\<lambda>e'.
        bindE (need q) (\<lambda>q'. Inr (e' * of_int q'))))
      else item ''max_loss'' (trade_max_loss t))"

text \<open>Lines 107 to 111: the capital a closed trade gives back.\<close>

definition released :: "trade \<Rightarrow> py_error + real" where
  "released u =
     (if trade_type u = ''equity'' then
        bindE (subscript ''exit_price'' (exit_price u)) (\<lambda>x.
        bindE (subscript ''quantity'' (quantity u)) (\<lambda>q.
        bindE (need x) (\<lambda>x'.
        bindE (need q) (\<lambda>q'. Inr (x' * of_int q')))))
      else item ''profit'' (profit u))"

definition holds_open :: "trade list \<Rightarrow> string \<Rightarrow> bool" where
  "holds_open trades s = list_ex (\<lambda>t. symbol t = s \<and> status t = ''open'') trades"

text \<open>
  Lines 74 to 78, for the trade that \<^verbatim>\<open>execute_trade\<close> returned and has already appended
  to the store: an exception in the cost is caught by the \<^verbatim>\<open>except\<close> of the loop.
\<close>

definition admit :: "trade \<Rightarrow> ledger \<Rightarrow> ledger" where
  "admit t l =
     (let l1 = l\<lparr>store := store l @ [t]\<rparr> in
      case position_cost t of
        Inl e \<Rightarrow> l1
      | Inr cost \<Rightarrow> l1\<lparr>available_capital := available_capital l - cost\<rparr>)"

text \<open>
  The loop of \<^verbatim>\<open>check_signals\<close>. \<^verbatim>\<open>trades\<close> is the store as loaded before the loop;
  \<^verbatim>\<open>execute\<close> stands for \<^verbatim>\<open>strategy.execute_trade\<close>. The result pairs the ledger with the
  list of signals. An exception of the capital check, as every exception of a turn, is
  caught and the loop goes on.
\<close>

fun check_signals_loop ::
  "market \<Rightarrow> (string \<Rightarrow> strategy_obj \<Rightarrow> string \<Rightarrow> py_error + trade option) \<Rightarrow> trade list
     \<Rightarrow> (string \<times> strategy_obj) list \<Rightarrow> ledger \<times> trade list \<Rightarrow> ledger \<times> trade list" where
  "check_signals_loop m execute trades [] st = st"
| "check_signals_loop m execute trades ((s, strat) # rest) (l, signals) =
     (if holds_open trades s then check_signals_loop m execute trades rest (l, signals)
      else
        (case cmp (<) (Num (available_capital l)) (max_position_size l) of
           Inl e \<Rightarrow> check_signals_loop m execute trades rest (l, signals)
         | Inr short \<Rightarrow>
             if short then (l, signals)
             else
               (case should_enter_trade (ml_model strat) (history m s) (options_chain m s 3)
                       (analyst_ratings m s) of
                  None \<Rightarrow> check_signals_loop m execute trades rest (l, signals)
                | Some ty \<Rightarrow>
                    (case execute s strat ty of
                       Inl e \<Rightarrow> check_signals_loop m execute trades rest (l, signals)
                     | Inr None \<Rightarrow> check_signals_loop m execute trades rest (l, signals)
                     | Inr (Some t) \<Rightarrow>
                         check_signals_loop m execute trades rest
                           (admit t l,
                            case position_cost t of Inl e \<Rightarrow> signals
                                                  | Inr c \<Rightarrow> signals @ [t])))))"

record summary =
  total_positions :: nat
  total_profit_loss :: real
  open_positions :: "trade list"
  closed_positions :: "trade list"

text \<open>
  The loop of \<^verbatim>\<open>monitor_portfolio\<close>. \<^verbatim>\<open>attrs\<close> are the attributes of the strategy objects
  and \<^verbatim>\<open>impl\<close> is what a method \<^verbatim>\<open>monitor_position\<close> would return if the class had one.
  The state is the available capital, the summary and \<^verbatim>\<open>updated_trades\<close>; an exception
  leaves the loop with the state reached so far.
\<close>

fun monitor_portfolio_loop ::
  "string list \<Rightarrow> (trade \<Rightarrow> py_error + trade) \<Rightarrow> string list \<Rightarrow> trade list
     \<Rightarrow> real \<times> summary \<times> trade list \<Rightarrow> py_error option \<times> real \<times> summary \<times> trade list" where
  "monitor_portfolio_loop attrs impl registered [] st = (None, st)"
| "monitor_portfolio_loop attrs impl registered (t # ts) (avail, summ, updated) =
     (if symbol t \<notin> set registered
      then monitor_portfolio_loop attrs impl registered ts (avail, summ, updated)
      else if status t = ''open'' then
        (let summ1 = summ\<lparr>total_positions := total_positions summ + 1\<rparr> in
         case bindE (getattr attrs ''monitor_position'') (\<lambda>_. impl t) of
           Inl e \<Rightarrow> (Some e, avail, summ1, updated)
         | Inr u \<Rightarrow>
             if status u = ''closed'' then
               (case released u of
                  Inl e \<Rightarrow> (Some e, avail, summ1, updated)
                | Inr amount \<Rightarrow>
                    (case item ''profit'' (profit u) of
                       Inl e \<Rightarrow> (Some e, avail + amount, summ1, updated)
                     | Inr pr \<Rightarrow>
                         monitor_portfolio_loop attrs impl registered ts
                           (avail + amount,
                            summ1\<lparr>total_profit_loss := total_profit_loss summ1 + pr,
                                  closed_positions := closed_positions summ1 @ [u]\<rparr>,
                            updated @ [u])))
             else monitor_portfolio_loop attrs impl registered ts
                    (avail, summ1\<lparr>open_positions := open_positions summ1 @ [u]\<rparr>,
                     updated @ [u]))
      else
        (let summ1 = summ\<lparr>closed_positions := closed_positions summ @ [t]\<rparr> in
         case item ''profit'' (profit t) of
           Inl e \<Rightarrow> (Some e, avail, summ1, updated)
         | Inr pr \<Rightarrow>
             monitor_portfolio_loop attrs impl registered ts
               (avail, summ1\<lparr>total_profit_loss := total_profit_loss summ1 + pr\<rparr>,
                updated @ [t])))"

definition monitor_portfolio ::
  "string list \<Rightarrow> (trade \<Rightarrow> py_error + trade) \<Rightarrow> string list \<Rightarrow> ledger
     \<Rightarrow> (py_error + summary) \<times> ledger" where
  "monitor_portfolio attrs impl registered l =
     (case monitor_portfolio_loop attrs impl registered (store l)
             (available_capital l,
              \<lparr>total_positions = 0, total_profit_loss = 0,
               open_positions = [], closed_positions = []\<rparr>, []) of
        (None, avail, summ, updated) \<Rightarrow>
          (Inr summ, l\<lparr>available_capital := avail, store := updated\<rparr>)
      | (Some e, avail, summ, updated) \<Rightarrow>
          (Inl e, l\<lparr>available_capital := avail\<rparr>))"

record stats =
  total_trades :: nat
  win_rate :: real
  total_profit :: real
  unrealized_pnl :: "pynum option"
  stats_current_capital :: pynum
  stats_available_capital :: real

text \<open>
  The loop of \<^verbatim>\<open>get_portfolio_stats\<close> over the open trades; \<^verbatim>\<open>impl\<close> is what a method
  \<^verbatim>\<open>calculate_options_pnl\<close> would return if the class had one.
\<close>

fun unrealized_loop ::
  "string list \<Rightarrow> (trade \<Rightarrow> py_error + pynum) \<Rightarrow> market \<Rightarrow> string list \<Rightarrow> trade list
     \<Rightarrow> pynum \<Rightarrow> py_error + pynum" where
  "unrealized_loop attrs impl m registered [] acc = Inr acc"
| "unrealized_loop attrs impl m registered (t # ts) acc =
     (if symbol t \<in> set registered then
        bindE
          (if trade_type t = ''equity'' then
             (let current_price = price (get_technical_signals (history m (symbol t))) in
              bindE (subscript ''entry_price'' (entry_price t)) (\<lambda>e.
              bindE (arith (-) current_price (case e of None \<Rightarrow> PyNone | Some x \<Rightarrow> Num x))
                (\<lambda>d.
              bindE (item ''quantity'' (quantity t)) (\<lambda>q.
              bindE (arith (*) d (Num (of_int q))) (\<lambda>v. arith (+) acc v)))))
           else
             bindE (getattr attrs ''calculate_options_pnl'') (\<lambda>_.
             bindE (impl t) (\<lambda>v. arith (+) acc v)))
          (unrealized_loop attrs impl m registered ts)
      else unrealized_loop attrs impl m registered ts acc)"

text \<open>
  Line 143: the sum of the profits of the closed trades, which reads \<^verbatim>\<open>t['profit']\<close> and
  leaves out those that are \<^verbatim>\<open>None\<close>. Line 144: the count of the winners, which compares
  \<^verbatim>\<open>t.get('profit', 0)\<close> with 0.
\<close>

fun total_of_profits :: "trade list \<Rightarrow> py_error + real" where
  "total_of_profits [] = Inr 0"
| "total_of_profits (t # ts) =
     bindE (subscript ''profit'' (profit t)) (\<lambda>p.
     bindE (total_of_profits ts) (\<lambda>rest.
       Inr ((case p of None \<Rightarrow> 0 | Some x \<Rightarrow> x) + rest)))"

fun count_winners :: "trade list \<Rightarrow> py_error + nat" where
  "count_winners [] = Inr 0"
| "count_winners (t # ts) =
     bindE (case profit t of Missing \<Rightarrow> Inr False | Null \<Rightarrow> Inl TypeError
                           | Val x \<Rightarrow> Inr (x > 0)) (\<lambda>won.
     bindE (count_winners ts) (\<lambda>rest. Inr ((if won then 1 else 0) + rest)))"

definition get_portfolio_stats ::
  "string list \<Rightarrow> (trade \<Rightarrow> py_error + pynum) \<Rightarrow> market \<Rightarrow> string list \<Rightarrow> ledger
     \<Rightarrow> py_error + stats" where
  "get_portfolio_stats attrs impl m registered l =
     (let trades = store l in
      if trades = [] then
        Inr \<lparr>total_trades = 0, win_rate = 0, total_profit = 0, unrealized_pnl = None,
             stats_current_capital = Num (initial_capital l),
             stats_available_capital = available_capital l\<rparr>
      else
        (let closed_trades = filter (\<lambda>t. status t = ''closed'') trades;
             open_trades = filter (\<lambda>t. status t = ''open'') trades
         in bindE (total_of_profits closed_trades) (\<lambda>total.
            bindE (count_winners closed_trades) (\<lambda>winning.
            bindE (unrealized_loop attrs impl m registered open_trades (Num 0)) (\<lambda>unreal.
            bindE (arith (+) (Num (initial_capital l + total)) unreal) (\<lambda>cap.
              Inr \<lparr>total_trades = length trades,
                   win_rate = (if closed_trades \<noteq> []
                               then real winning / real (length closed_trades) * 100 else 0),
                   total_profit = total, unrealized_pnl = Some unreal,
                   stats_current_capital = cap,
                   stats_available_capital = available_capital l\<rparr>))))))"


section \<open>Sessions of the portfolio manager\<close>










section \<open>Worked inputs\<close>

text \<open>
  The chain of the bull call spread example: candidate strikes 98 and 102 around the
  price 100, the long call at 4.0 and the short call at 1.5.
\<close>

definition example_chain :: "quote list" where
  "example_chain =
     [\<lparr>strike = 98, optionType = ''CALL'', expiration = ''2026-12-18'',
       lastPrice = 4.0, volume = 10\<rparr>,
      \<lparr>strike = 102, optionType = ''CALL'', expiration = ''2026-12-18'',
       lastPrice = 1.5, volume = 10\<rparr>]"




text \<open>
  A full snapshot that passes the equity entry conditions, as \<^verbatim>\<open>get_technical_signals\<close>
  is meant to produce it, with the analyst ratings and the options flow that go with it.
\<close>

definition entry_snapshot :: snapshot where
  "entry_snapshot =
     \<lparr>price = Num 100, rsi = Num 35, oversold = False, overbought = False, uptrend = True,
      support = Num 98, resistance = Num 110, near_support = True, near_resistance = False,
      sma_20 = Num 99, sma_50 = Num 97,
      macd = Some (Num 0.5), macd_signal_line = Some (Num 0.2), macd_bullish = Some True,
      bollinger_upper = Some (Num 108), bollinger_lower = Some (Num 94),
      bollinger_width = Some (Num 0.14),
      below_bollinger = Some False, above_bollinger = Some False,
      atr = Some (Num 2), atr_percent = Some (Num 2)\<rparr>"

definition buy_ratings :: ratings where
  "buy_ratings =
     \<lparr>Recommendation = Some ''BUY'', Mean_Rating = Parsed 1.8, Target_Price = Parsed 120\<rparr>"

definition buy_signals :: analyst_signals where
  "buy_signals =
     \<lparr>recommendation = ''BUY'', mean_rating = 1.8, bullish = True, bearish = False,
      target_price = 120\<rparr>"

definition example_flow :: options_signals where
  "example_flow =
     \<lparr>bullish_flow = True, strong_flow = True, put_call_ratio = 0, high_activity = False\<rparr>"

text \<open>
  The equity position of the trailing stop example (entry 100, stop 95, target 115), the
  same position after the stop was raised, and after it was closed at 106 with 20 shares.
  A two-leg options position (maximal loss 300, maximal profit 700, stop at 0.8 and
  target at 0.5 of them) with its quotes: all of them, only that of the short leg, and
  all of them after the premiums moved.
\<close>

definition example_position :: "int \<Rightarrow> trade" where
  "example_position q =
     \<lparr>symbol = ''AAPL'', trade_type = ''equity'', action = Val ''buy'', quantity = Val q,
      entry_price = Val 100, stop_loss = Val 95, take_profit = Val 115,
      status = ''open'', entry_date = ''2026-11-02 10:00:00'', exit_date = Null,
      exit_price = Null, profit = Null, strategy_type = Missing, trade_expiry = Missing,
      trade_expiration = Missing, trade_max_loss = Missing, trade_max_profit = Missing,
      legs = Missing\<rparr>"

definition trailed_position :: "int \<Rightarrow> trade" where
  "trailed_position q = (example_position q)\<lparr>stop_loss := Val 106.4\<rparr>"

definition closed_position :: "string \<Rightarrow> trade" where
  "closed_position now =
     (trailed_position 20)\<lparr>status := ''closed'', exit_date := Val now,
        exit_price := Val 106, profit := Val 120\<rparr>"

definition long_leg :: leg where
  "long_leg = \<lparr>leg_type = ''CALL'', leg_action = ''buy'', leg_strike = 100,
                leg_premium = 5, leg_quantity = None\<rparr>"

definition short_leg :: leg where
  "short_leg = \<lparr>leg_type = ''CALL'', leg_action = ''sell'', leg_strike = 110,
                 leg_premium = 2, leg_quantity = None\<rparr>"

definition spread_trade :: trade where
  "spread_trade =
     \<lparr>symbol = ''AAPL'', trade_type = ''options'', action = Missing, quantity = Missing,
      entry_price = Missing, stop_loss = Val 240, take_profit = Val 350,
      status = ''open'', entry_date = ''2026-11-02 10:00:00'', exit_date = Missing,
      exit_price = Missing, profit = Missing, strategy_type = Val ''bull_call_spread'',
      trade_expiry = Val ''2026-12-18'', trade_expiration = Val ''2026-12-18'',
      trade_max_loss = Val 300, trade_max_profit = Val 700,
      legs = Val [long_leg, short_leg]\<rparr>"

definition full_chain :: "quote list" where
  "full_chain =
     [\<lparr>strike = 100, optionType = ''CALL'', expiration = ''2026-12-18'',
       lastPrice = 5, volume = 10\<rparr>,
      \<lparr>strike = 110, optionType = ''CALL'', expiration = ''2026-12-18'',
       lastPrice = 2, volume = 10\<rparr>]"

definition partial_chain :: "quote list" where
  "partial_chain =
     [\<lparr>strike = 110, optionType = ''CALL'', expiration = ''2026-12-18'',
       lastPrice = 2, volume = 10\<rparr>]"

definition moved_chain :: "quote list" where
  "moved_chain =
     [\<lparr>strike = 100, optionType = ''CALL'', expiration = ''2026-12-18'',
       lastPrice = 8, volume = 10\<rparr>,
      \<lparr>strike = 110, optionType = ''CALL'', expiration = ''2026-12-18'',
       lastPrice = 2.5, volume = 10\<rparr>]"

text \<open>
  A ledger whose store holds the closed equity position and the open options position,
  both of a symbol that has a strategy.
\<close>

definition example_ledger :: ledger where
  "example_ledger =
     \<lparr>initial_capital = 100000, available_capital = 99700, max_position_size = Num 2000,
      store = [closed_position ''2026-11-03 10:00:00'', spread_trade]\<rparr>"

text \<open>A market without data, for the arguments that the monitoring results do not depend on.\<close>

definition quiet_market :: market where
  "quiet_market =
     \<lparr>history = (\<lambda>s. None), options_chain = (\<lambda>s n. []),
      analyst_ratings = (\<lambda>s. buy_ratings)\<rparr>"

text \<open>
  A store in which a trade that is neither open nor carries a profit (a closed trade whose
  profit is \<^verbatim>\<open>null\<close>) stands before the open options position.
\<close>

definition unbooked_position :: trade where
  "unbooked_position = (closed_position ''2026-11-03 10:00:00'')\<lparr>profit := Null\<rparr>"

definition unbooked_ledger :: ledger where
  "unbooked_ledger =
     \<lparr>initial_capital = 100000, available_capital = 99700, max_position_size = Num 2000,
      store = [unbooked_position, spread_trade]\<rparr>"




definition unchanged :: "trade \<Rightarrow> py_error + trade" where
  "unchanged t = Inr t"

definition flat :: "trade \<Rightarrow> py_error + pynum" where
  "flat t = Inr (Num 0)"

section \<open>Verified properties\<close>

subsection \<open>The error monad\<close>

lemma bindE_simps [simp]:
  "bindE (Inl e) f = Inl e" "bindE (Inr x) f = f x"
  by (simp_all add: bindE_def)

lemma bindE_eq_Inr: "bindE m f = Inr y \<longleftrightarrow> (\<exists>x. m = Inr x \<and> f x = Inr y)"
  by (cases m) simp_all

subsection \<open>Bull call spread\<close>


lemma column_simps [simp]:
  "column c NoColumns = Inl (KeyError c)" "column c (Frame rows) = Inr rows"
  by (simp_all add: column_def)

lemma strikes_no_columns: "find_strike_prices NoColumns p w = Inl (KeyError ''strike'')"
  by (simp add: find_strike_prices_def Let_def)

lemma strikes_frame: "\<exists>ks. find_strike_prices (Frame rows) p w = Inr ks"
  by (simp add: find_strike_prices_def Let_def)





subsection \<open>Strategy selection\<close>





















subsection \<open>Technical signals\<close>

lemma resolve_rolling_mean:
  "resolve [(''support'', a), (''resistance'', b)] ''rolling_mean''
     = Inl (NameError ''rolling_mean'')"
  by (simp add: resolve_def)

lemma bindE_fails: "(\<And>x. \<exists>e. f x = Inl e) \<Longrightarrow> \<exists>e. bindE m f = Inl e"
  by (cases m) simp_all

lemma build_signals_fails: "\<exists>e. build_signals df s r = Inl e"
  unfolding build_signals_def Let_def resolve_rolling_mean
  by (intro bindE_fails) (auto simp: bindE_def split: sum.splits)

lemma body_fails: "\<exists>e. technical_signals_body df = Inl e"
  unfolding technical_signals_body_def
  by (rule bindE_fails) (auto simp: build_signals_fails)

lemma get_technical_signals_null: "get_technical_signals hist = null_snapshot"
proof (cases hist)
  case None
  then show ?thesis by (simp add: get_technical_signals_def)
next
  case (Some df)
  obtain e where "technical_signals_body df = Inl e" using body_fails by blast
  with Some show ?thesis by (simp add: get_technical_signals_def)
qed

lemma enter_decision_null: "enter_decision ml null_snapshot chain r = Inr None"
  by (simp add: enter_decision_def null_snapshot_def)

lemma should_enter_trade_None: "should_enter_trade ml hist chain r = None"
  by (simp add: should_enter_trade_def get_technical_signals_null enter_decision_null)

lemma check_signals_loop_idle:
  "check_signals_loop m execute trades strategies (l, sigs) = (l, sigs)"
  by (induction strategies) (auto simp: should_enter_trade_None split: sum.splits)

text \<open>
  The first failure on a history that brings the provider's columns only: the three
  computed columns are there, \<^verbatim>\<open>MACD\<close> is not.
\<close>

lemma map_of_filter_other:
  "c \<noteq> c' \<Longrightarrow> map_of (filter (\<lambda>(k, _). k \<noteq> c') xs) c = map_of xs c"
  by (induction xs) auto

lemma getcol_setcol_other: "c \<noteq> c' \<Longrightarrow> getcol (setcol df c' s) c = getcol df c"
  by (simp add: getcol_def setcol_def map_of_filter_other)

lemma getcol_setcol_same: "getcol (setcol df c s) c = Inr s"
  by (simp add: getcol_def setcol_def)

lemma compute_indicators_frame:
  assumes "compute_indicators df = Inr (df3, s, r)"
  shows "\<exists>close a b c. getcol df ''Close'' = Inr close
           \<and> df3 = setcol (setcol (setcol df ''RSI'' a) ''SMA_20'' b) ''SMA_50'' c"
  using assms unfolding compute_indicators_def Let_def
  by (auto simp: bindE_eq_Inr getcol_setcol_other getcol_setcol_same split: if_splits)

lemma build_signals_macd:
  assumes "compute_indicators df = Inr (df3, s, r)"
      and "map_of (columns df) ''MACD'' = None"
  shows "build_signals df3 s r = Inl (KeyError ''MACD'')"
proof -
  from compute_indicators_frame [OF assms(1)] obtain close a b c where
    cl: "getcol df ''Close'' = Inr close" and
    df3: "df3 = setcol (setcol (setcol df ''RSI'' a) ''SMA_20'' b) ''SMA_50'' c" by blast
  have m: "getcol df ''MACD'' = Inl (KeyError ''MACD'')"
    using assms(2) by (simp add: getcol_def)
  show ?thesis
    unfolding build_signals_def Let_def df3
    by (simp add: getcol_setcol_other getcol_setcol_same cl m)
qed

text \<open>
  Claim C2. For every history \<^verbatim>\<open>get_technical_signals\<close> returns the null snapshot: the
  body of its \<^verbatim>\<open>try\<close> block raises on every frame, so a history of 50 bars or more ends
  in the \<^verbatim>\<open>except\<close> branch. Hence \<^verbatim>\<open>should_enter_trade\<close> returns \<^verbatim>\<open>None\<close> for every
  instrument, model, chain and rating, and the loop of \<^verbatim>\<open>check_signals\<close> leaves the ledger
  and its list of signals as they were: no trade is entered.
\<close>

theorem technical_signals_always_null:
  "get_technical_signals hist = null_snapshot
   \<and> (\<exists>e. technical_signals_body df = Inl e)
   \<and> should_enter_trade ml hist chain r = None
   \<and> check_signals_loop m execute trades strategies (l, sigs) = (l, sigs)"
  using get_technical_signals_null body_fails should_enter_trade_None check_signals_loop_idle
  by blast

subsection \<open>Entry decision and trade building\<close>

lemma example_options_signals: "get_options_signals example_chain = Inr example_flow"
  by (simp add: get_options_signals_def calculate_options_statistics_def example_chain_def
        totalValue_def Let_def example_flow_def)

lemma buy_analyst: "get_analyst_signals buy_ratings = Inr buy_signals"
  by (simp add: get_analyst_signals_def buy_ratings_def to_float_def Let_def buy_signals_def)

lemma entry_equity_conditions: "equity_conditions entry_snapshot buy_signals = Inr True"
  by (simp add: equity_conditions_def entry_snapshot_def andE_def orE_def cmp_def arith_def
        buy_signals_def)

lemma entry_options_conditions:
  "options_conditions entry_snapshot example_flow buy_signals = Inr False"
  by (simp add: options_conditions_def entry_snapshot_def andE_def orE_def cmp_def arith_def
        buy_signals_def example_flow_def)

lemma entry_price: "price entry_snapshot = Num 100" "rsi entry_snapshot = Num 35"
  by (simp_all add: entry_snapshot_def)

lemma no_model_probability:
  "ml_probability NoModel tech opts analyst = Inl (AttributeError ''predict_proba'')"
  "ml_probability NoAttribute tech opts analyst = Inl (AttributeError ''ml_model'')"
  by (simp_all add: ml_probability_def)

lemma model_probability:
  "ml_probability (Model (\<lambda>features. c)) entry_snapshot opts analyst = Inr c"
  by (simp add: ml_probability_def entry_snapshot_def arith_def signal_item_def)

lemma no_model_no_trade:
  "(\<exists>e. enter_decision NoModel tech chain r = Inl e) \<or> enter_decision NoModel tech chain r = Inr None"
  by (auto simp: enter_decision_def no_model_probability bindE_def split: sum.splits)

lemma no_attribute_no_trade:
  "(\<exists>e. enter_decision NoAttribute tech chain r = Inl e)
     \<or> enter_decision NoAttribute tech chain r = Inr None"
  by (auto simp: enter_decision_def no_model_probability bindE_def split: sum.splits)

text \<open>
  Claim C4, on the code. With a model attached a probability below 0.5 vetoes the signal
  and a probability of 0.9 lets the entry conditions decide (here: an equity signal). On
  the same signals without a model the evaluation does not reach the entry conditions:
  the call of \<^verbatim>\<open>predict_proba\<close> stands outside the \<^verbatim>\<open>if\<close> and raises AttributeError, and
  for no signals at all does a strategy without a model return a trade type.
\<close>

theorem model_absent_blocks_entry:
  "enter_decision (Model (\<lambda>features. 0.9)) entry_snapshot example_chain buy_ratings
     = Inr (Some ''equity'')
   \<and> enter_decision (Model (\<lambda>features. 0.4)) entry_snapshot example_chain buy_ratings
     = Inr None
   \<and> enter_decision NoModel entry_snapshot example_chain buy_ratings
     = Inl (AttributeError ''predict_proba'')
   \<and> enter_decision NoAttribute entry_snapshot example_chain buy_ratings
     = Inl (AttributeError ''ml_model'')
   \<and> ((\<exists>e. enter_decision NoModel tech chain r = Inl e)
        \<or> enter_decision NoModel tech chain r = Inr None)
   \<and> ((\<exists>e. enter_decision NoAttribute tech chain r = Inl e)
        \<or> enter_decision NoAttribute tech chain r = Inr None)"
proof -
  have 1: "enter_decision (Model (\<lambda>features. 0.9)) entry_snapshot example_chain buy_ratings
     = Inr (Some ''equity'')"
    by (simp add: enter_decision_def example_options_signals buy_analyst entry_price
        model_probability fmt2f_def entry_equity_conditions entry_options_conditions)
  have 2: "enter_decision (Model (\<lambda>features. 0.4)) entry_snapshot example_chain buy_ratings
     = Inr None"
    by (simp add: enter_decision_def example_options_signals buy_analyst entry_price
        model_probability)
  have 3: "enter_decision NoModel entry_snapshot example_chain buy_ratings
     = Inl (AttributeError ''predict_proba'')"
    by (simp add: enter_decision_def example_options_signals buy_analyst entry_price
        no_model_probability)
  have 4: "enter_decision NoAttribute entry_snapshot example_chain buy_ratings
     = Inl (AttributeError ''ml_model'')"
    by (simp add: enter_decision_def example_options_signals buy_analyst entry_price
        no_model_probability)
  show ?thesis using 1 2 3 4 no_model_no_trade no_attribute_no_trade by blast
qed

lemma entry_bands: "risk_bands entry_snapshot = Inr (Num 97, Num 106)"
  by (simp add: risk_bands_def entry_snapshot_def signal_item_def positive_def arith_def)

lemma entry_quantity: "position_quantity (100000 * 0.02) (Num 100) = Inr 20"
  by (simp add: position_quantity_def py_int_def)

lemma resolve_stop_loss:
  "resolve [(''current_price'', a), (''risk_amount'', b), (''stop_loss_price'', c),
            (''take_profit_price'', d), (''quantity'', q)] ''stop_loss''
     = Inl (NameError ''stop_loss'')"
  by (simp add: resolve_def)

lemma execute_trade_equity_no_trade:
  "(\<exists>e. execute_trade_equity s cap tech chain r now = Inl e)
     \<or> execute_trade_equity s cap tech chain r now = Inr None"
  unfolding execute_trade_equity_def Let_def resolve_stop_loss
  by (auto simp: bindE_def split: sum.splits prod.splits)

text \<open>
  Claim C5, on the code. With a capital of 100000, a price of 100 and an ATR of 2 the
  risk bands are 97 and 106 and the quantity is 20, yet no position is created: the
  trade dict reads the unbound name \<^verbatim>\<open>stop_loss\<close> and raises NameError. For no input
  does the equity branch return a trade.
\<close>

theorem equity_trade_never_built:
  "execute_trade_equity ''AAPL'' 100000 entry_snapshot example_chain buy_ratings now
     = Inl (NameError ''stop_loss'')
   \<and> risk_bands entry_snapshot = Inr (Num (100 - 1.5 * 2), Num (100 + 3 * 2))
   \<and> position_quantity (100000 * 0.02) (Num 100) = Inr \<lfloor>(100000 * 0.02) / 100 :: real\<rfloor>
   \<and> ((\<exists>e. execute_trade_equity s cap tech chain r now = Inl e)
        \<or> execute_trade_equity s cap tech chain r now = Inr None)"
proof -
  have 1: "execute_trade_equity ''AAPL'' 100000 entry_snapshot example_chain buy_ratings now
     = Inl (NameError ''stop_loss'')"
    unfolding execute_trade_equity_def Let_def resolve_stop_loss entry_price
      entry_bands example_options_signals buy_analyst entry_quantity
    by simp
  have 2: "risk_bands entry_snapshot = Inr (Num (100 - 1.5 * 2), Num (100 + 3 * 2))"
    using entry_bands by simp
  have 3: "position_quantity (100000 * 0.02) (Num 100) = Inr \<lfloor>(100000 * 0.02) / 100 :: real\<rfloor>"
    using entry_quantity by simp
  show ?thesis using 1 2 3 execute_trade_equity_no_trade by blast
qed

subsection \<open>Monitoring\<close>

lemma trail_stop_stop:
  assumes "trail_stop pnl p t = Inr t1" and "stop_loss t = Val sl"
  shows "stop_loss t1 = Val (if pnl > 10 then max sl (p * 0.95) else sl)"
  using assms by (auto simp: trail_stop_def Let_def item_def subscript_def need_def max_def split: if_splits)

lemma trail_stop_fields:
  assumes "trail_stop pnl p t = Inr t1"
  shows "t1 = t \<or> (\<exists>x. t1 = t\<lparr>stop_loss := Val x\<rparr>)"
  using assms by (auto simp: trail_stop_def Let_def bindE_eq_Inr split: if_splits)

lemma close_equity_stop:
  "close_equity now p e t = Inr t' \<Longrightarrow> stop_loss t' = stop_loss t"
  by (auto simp: close_equity_def bindE_eq_Inr)

lemma monitor_equity_stop:
  assumes "monitor_equity mlp (Num p) now t = Inr t'"
      and "stop_loss t = Val sl" and "entry_price t = Val en"
  shows "stop_loss t' = Val (if (p - en) / en * 100 > 10 then max sl (p * 0.95) else sl)"
proof -
  from assms(1,3) obtain t1 where
    t1: "trail_stop ((p - en) / en * 100) p t = Inr t1" and
    t': "t' = t1 \<or> close_equity now p en t1 = Inr t'"
    by (auto simp: monitor_equity_def item_def subscript_def need_def Let_def bindE_eq_Inr split: if_splits)
  from t' have "stop_loss t' = stop_loss t1" by (auto dest: close_equity_stop)
  with trail_stop_stop [OF t1 assms(2)] show ?thesis by simp
qed

lemma monitor_equity_nan:
  "monitor_equity mlp NaN now t = Inr t' \<Longrightarrow> t' = t"
  by (auto simp: monitor_equity_def Let_def bindE_eq_Inr split: if_splits)

lemma example_trail:
  "monitor_equity 0.20 (Num 112) now (example_position q) = Inr (trailed_position q)"
  by (simp add: monitor_equity_def example_position_def trailed_position_def item_def subscript_def need_def Let_def
        trail_stop_def exit_signal_def orE_def)

lemma example_close:
  "monitor_equity 0.20 (Num 106) now (trailed_position q) =
     Inr ((trailed_position q)\<lparr>status := ''closed'', exit_date := Val now,
            exit_price := Val 106, profit := Val ((106 - 100) * of_int q)\<rparr>)"
  by (simp add: monitor_equity_def example_position_def trailed_position_def item_def subscript_def need_def Let_def
        trail_stop_def exit_signal_def orE_def close_equity_def)

lemma example_fields:
  "stop_loss (example_position q) = Val 95" "entry_price (example_position q) = Val 100"
  "trade_type (example_position q) = ''equity''" "status (example_position q) = ''open''"
  by (simp_all add: example_position_def)

lemma trailed_fields:
  "stop_loss (trailed_position q) = Val 106.4" "entry_price (trailed_position q) = Val 100"
  "trade_type (trailed_position q) = ''equity''" "status (trailed_position q) = ''open''"
  "quantity (trailed_position q) = Val q"
  by (simp_all add: example_position_def trailed_position_def)

lemma spread_full: "monitor_options full_chain now spread_trade = Inr spread_trade"
  by (simp add: monitor_options_def spread_trade_def full_chain_def item_def subscript_def need_def Let_def long_leg_def short_leg_def
        leg_current_value_def leg_count_def initial_value_def orE_def)

lemma spread_partial:
  "monitor_options partial_chain now spread_trade = Inr (close_options now 500 spread_trade)"
  by (simp add: monitor_options_def spread_trade_def partial_chain_def item_def subscript_def need_def Let_def long_leg_def short_leg_def
        leg_current_value_def leg_count_def initial_value_def orE_def)

lemma spread_moved:
  "monitor_options moved_chain now spread_trade = Inr (close_options now (- 250) spread_trade)"
  by (simp add: monitor_options_def spread_trade_def moved_chain_def item_def subscript_def need_def Let_def long_leg_def short_leg_def
        leg_current_value_def leg_count_def initial_value_def orE_def)

lemma spread_dispatch:
  "monitor_trade mlp cp chain now spread_trade = monitor_options chain now spread_trade"
  by (simp add: monitor_trade_def spread_trade_def)

text \<open>
  Against claim C6 as stated: the chain quotes the short leg only, the long leg is
  skipped, and the position, which stays open when both legs are quoted at their entry
  premiums, is closed on the value of the short leg alone.
\<close>

theorem partial_valuation_closes_counterexample:
  "monitor_trade 0.20 PyNone partial_chain ''2026-11-03 10:00:00'' spread_trade
     = Inr (close_options ''2026-11-03 10:00:00'' 500 spread_trade)
   \<and> status (close_options ''2026-11-03 10:00:00'' 500 spread_trade) = ''closed''
   \<and> status spread_trade = ''open''
   \<and> filter (\<lambda>q. strike q = 100 \<and> optionType q = ''CALL''
                    \<and> expiration q = ''2026-12-18'') partial_chain = []
   \<and> monitor_trade 0.20 PyNone full_chain ''2026-11-03 10:00:00'' spread_trade
     = Inr spread_trade"
proof (intro conjI)
  show "monitor_trade 0.20 PyNone partial_chain ''2026-11-03 10:00:00'' spread_trade
     = Inr (close_options ''2026-11-03 10:00:00'' 500 spread_trade)"
    unfolding spread_dispatch by (rule spread_partial)
  show "status (close_options ''2026-11-03 10:00:00'' 500 spread_trade) = ''closed''"
    by (simp add: close_options_def)
  show "status spread_trade = ''open''"
    by (simp add: spread_trade_def)
  show "filter (\<lambda>q. strike q = 100 \<and> optionType q = ''CALL''
                    \<and> expiration q = ''2026-12-18'') partial_chain = []"
    by (simp add: partial_chain_def)
  show "monitor_trade 0.20 PyNone full_chain ''2026-11-03 10:00:00'' spread_trade
     = Inr spread_trade"
    unfolding spread_dispatch by (rule spread_full)
qed

lemma monitor_options_empty: "monitor_options [] now t = Inr t"
  by (simp add: monitor_options_def)

lemma leg_unquoted:
  "filter (\<lambda>q. strike q = leg_strike l \<and> optionType q = leg_type l \<and> expiration q = e)
     options_df = [] \<Longrightarrow> leg_current_value options_df e l = 0"
  by (simp add: leg_current_value_def)

lemma monitor_options_value:
  assumes "options_df \<noteq> []" and "legs t = Val ls" and "trade_expiration t = Val e"
      and "stop_loss t = Val sl" and "take_profit t = Val tp"
  shows "monitor_options options_df now t =
           Inr (let pnl = sum_list (map (leg_current_value options_df e) ls) - initial_value ls
                in if pnl \<le> - sl \<or> pnl \<ge> tp then close_options now pnl t else t)"
  using assms by (cases ls) (auto simp: monitor_options_def item_def subscript_def need_def Let_def orE_def)

lemma monitor_options_result:
  assumes "monitor_options options_df now t = Inr t'"
  shows "t' = t \<or> (\<exists>pnl. t' = close_options now pnl t)"
  using assms
  by (auto simp: monitor_options_def Let_def bindE_eq_Inr split: if_splits)

text \<open>
  Claim C6, as the code has it. An empty chain leaves an open options position as it is.
  Otherwise a leg without a quote adds nothing to the current value, the profit is the
  value of the quoted legs minus the entry value of all legs, and the position is closed
  with that profit when it reaches the take-profit or falls to minus the stop-loss. In
  every case \<^verbatim>\<open>stop_loss\<close> and \<^verbatim>\<open>take_profit\<close> are unchanged.
\<close>

theorem options_valued_on_quoted_legs:
  "monitor_options [] now t = Inr t
   \<and> (filter (\<lambda>q. strike q = leg_strike l \<and> optionType q = leg_type l \<and> expiration q = e)
         options_df = [] \<longrightarrow> leg_current_value options_df e l = 0)
   \<and> (options_df \<noteq> [] \<and> legs t = Val ls \<and> trade_expiration t = Val e
        \<and> stop_loss t = Val sl \<and> take_profit t = Val tp \<longrightarrow>
      monitor_options options_df now t =
        Inr (let pnl = sum_list (map (leg_current_value options_df e) ls) - initial_value ls
             in if pnl \<le> - sl \<or> pnl \<ge> tp then close_options now pnl t else t))
   \<and> (monitor_options options_df now t = Inr t2 \<longrightarrow>
        stop_loss t2 = stop_loss t \<and> take_profit t2 = take_profit t
        \<and> (t2 = t \<or> (\<exists>pnl. t2 = close_options now pnl t)))"
proof (intro conjI impI)
  show "monitor_options [] now t = Inr t" by (rule monitor_options_empty)
next
  assume "filter (\<lambda>q. strike q = leg_strike l \<and> optionType q = leg_type l \<and> expiration q = e)
         options_df = []"
  then show "leg_current_value options_df e l = 0" by (rule leg_unquoted)
next
  assume "options_df \<noteq> [] \<and> legs t = Val ls \<and> trade_expiration t = Val e
        \<and> stop_loss t = Val sl \<and> take_profit t = Val tp"
  then show "monitor_options options_df now t =
        Inr (let pnl = sum_list (map (leg_current_value options_df e) ls) - initial_value ls
             in if pnl \<le> - sl \<or> pnl \<ge> tp then close_options now pnl t else t)"
    using monitor_options_value by blast
next
  assume a: "monitor_options options_df now t = Inr t2"
  from monitor_options_result [OF a]
  show "stop_loss t2 = stop_loss t" by (auto simp: close_options_def)
  from monitor_options_result [OF a]
  show "take_profit t2 = take_profit t" by (auto simp: close_options_def)
  from monitor_options_result [OF a]
  show "t2 = t \<or> (\<exists>pnl. t2 = close_options now pnl t)" .
qed

lemma spread_fields:
  "legs spread_trade = Val [long_leg, short_leg]"
  "trade_expiration spread_trade = Val ''2026-12-18''"
  "stop_loss spread_trade = Val 240" "take_profit spread_trade = Val 350"
  "status spread_trade = ''open''" "trade_type spread_trade = ''options''"
  "exit_price spread_trade = Missing"
  by (simp_all add: spread_trade_def)

lemma partial_value:
  "sum_list (map (leg_current_value partial_chain ''2026-12-18'') [long_leg, short_leg])
     - initial_value [long_leg, short_leg] = 500"
  by (simp add: leg_current_value_def partial_chain_def long_leg_def short_leg_def
        leg_count_def initial_value_def)

theorem options_valued_on_quoted_legs_witness:
  "filter (\<lambda>q. strike q = leg_strike long_leg \<and> optionType q = leg_type long_leg
                 \<and> expiration q = ''2026-12-18'') partial_chain = []
   \<and> leg_current_value partial_chain ''2026-12-18'' long_leg = 0
   \<and> partial_chain \<noteq> []
   \<and> monitor_options partial_chain ''2026-11-03 10:00:00'' spread_trade
       = Inr (close_options ''2026-11-03 10:00:00'' 500 spread_trade)
   \<and> stop_loss (close_options ''2026-11-03 10:00:00'' 500 spread_trade)
       = stop_loss spread_trade
   \<and> take_profit (close_options ''2026-11-03 10:00:00'' 500 spread_trade)
       = take_profit spread_trade"
proof -
  note inst = options_valued_on_quoted_legs
         [where options_df = partial_chain and now = "''2026-11-03 10:00:00''"
            and t = spread_trade and l = long_leg and e = "''2026-12-18''"
            and ls = "[long_leg, short_leg]" and sl = 240 and tp = 350
            and ?t2.0 = "close_options ''2026-11-03 10:00:00'' 500 spread_trade"]
  have f: "filter (\<lambda>q. strike q = leg_strike long_leg \<and> optionType q = leg_type long_leg
                 \<and> expiration q = ''2026-12-18'') partial_chain = []"
    by (simp add: partial_chain_def long_leg_def)
  have v: "leg_current_value partial_chain ''2026-12-18'' long_leg = 0"
    by (rule inst [THEN conjunct2, THEN conjunct1, THEN mp, OF f])
  have n: "partial_chain \<noteq> []" by (simp add: partial_chain_def)
  have h: "monitor_options partial_chain ''2026-11-03 10:00:00'' spread_trade
       = Inr (close_options ''2026-11-03 10:00:00'' 500 spread_trade)"
    using inst [THEN conjunct2, THEN conjunct2, THEN conjunct1] n spread_fields partial_value
    by (simp add: Let_def)
  from inst [THEN conjunct2, THEN conjunct2, THEN conjunct2, THEN mp, OF h]
  show ?thesis using f v n h by blast
qed

lemma close_equity_fields:
  assumes "close_equity now p e t = Inr t'"
  shows "status t' = ''closed'' \<and> exit_date t' = Val now \<and> exit_price t' = Val p
         \<and> (\<exists>q. quantity t = Val q \<and> profit t' = Val ((p - e) * of_int q))"
  using assms by (auto simp: close_equity_def item_def subscript_def need_def bindE_eq_Inr split: field.splits)

lemma trail_stop_status: "trail_stop pnl p t = Inr t1 \<Longrightarrow> status t1 = status t"
  by (auto dest: trail_stop_fields)

lemma trail_stop_quantity: "trail_stop pnl p t = Inr t1 \<Longrightarrow> quantity t1 = quantity t"
  by (auto dest: trail_stop_fields)

lemma monitor_equity_closed:
  assumes "monitor_equity mlp cp now t = Inr t'" and "status t = ''open''"
      and "status t' = ''closed''"
  shows "exit_date t' = Val now
         \<and> (\<exists>p e q. cp = Num p \<and> entry_price t = Val e \<and> quantity t = Val q
               \<and> exit_price t' = Val p \<and> profit t' = Val ((p - e) * of_int q))"
proof (cases cp)
  case PyNone
  with assms show ?thesis by (auto simp: monitor_equity_def bindE_eq_Inr)
next
  case NaN
  with assms(1) have "t' = t" using monitor_equity_nan by blast
  with assms(2,3) show ?thesis by simp
next
  case (Num p)
  from assms(1) obtain en where en: "entry_price t = Val en"
    by (auto simp: monitor_equity_def item_def subscript_def need_def bindE_eq_Inr split: field.splits)
  from assms(1) Num en obtain t1 where
    t1: "trail_stop ((p - en) / en * 100) p t = Inr t1" and
    t': "t' = t1 \<or> close_equity now p en t1 = Inr t'"
    by (auto simp: monitor_equity_def item_def subscript_def need_def Let_def bindE_eq_Inr split: if_splits)
  from trail_stop_status [OF t1] assms(2,3) t' have c: "close_equity now p en t1 = Inr t'"
    by auto
  from close_equity_fields [OF c] trail_stop_quantity [OF t1] Num en show ?thesis by auto
qed

lemma monitor_options_closed:
  assumes "monitor_options chain now t = Inr t'" and "status t = ''open''"
      and "status t' = ''closed''"
  shows "exit_date t' = Val now \<and> (\<exists>pnl. profit t' = Val pnl) \<and> exit_price t' = exit_price t"
  using monitor_options_result [OF assms(1)] assms(2,3)
  by (auto simp: close_options_def)

lemma monitor_trade_settled: "status t \<noteq> ''open'' \<Longrightarrow> monitor_trade mlp cp chain now t = Inr t"
  by (simp add: monitor_trade_def)

lemma monitor_all_settled:
  "list_all (\<lambda>t. status t = ''closed'') ts \<Longrightarrow> monitor_all mlp cp chain now ts = Inr ts"
  by (induction ts) (auto simp: monitor_trade_settled)

text \<open>
  Claim C7, as the code has it. An equity position that a monitoring turn closes has its
  exit date, its exit price (the current price) and its profit
  \<open>(price - entry) * quantity\<close>. An options position that a turn closes has its exit date
  and its profit, and its exit price is left as it was. A trade that is not open is
  returned unchanged, and so is a list of closed trades: a closed position is never
  changed again.
\<close>

theorem closed_positions_final:
  "(monitor_trade mlp cp chain now t = Inr t1 \<and> status t = ''open''
      \<and> trade_type t = ''equity'' \<and> status t1 = ''closed'' \<longrightarrow>
        exit_date t1 = Val now
        \<and> (\<exists>p e q. cp = Num p \<and> entry_price t = Val e \<and> quantity t = Val q
              \<and> exit_price t1 = Val p \<and> profit t1 = Val ((p - e) * of_int q)))
   \<and> (monitor_trade mlp cp chain now t = Inr t2 \<and> status t = ''open''
      \<and> trade_type t = ''options'' \<and> status t2 = ''closed'' \<longrightarrow>
        exit_date t2 = Val now \<and> (\<exists>pnl. profit t2 = Val pnl)
        \<and> exit_price t2 = exit_price t)
   \<and> (status t3 \<noteq> ''open'' \<longrightarrow> monitor_trade mlp cp chain now t3 = Inr t3)
   \<and> (list_all (\<lambda>t. status t = ''closed'') ts \<longrightarrow> monitor_all mlp cp chain now ts = Inr ts)"
proof (intro conjI impI)
  assume a: "monitor_trade mlp cp chain now t = Inr t1 \<and> status t = ''open''
      \<and> trade_type t = ''equity'' \<and> status t1 = ''closed''"
  then have "monitor_equity mlp cp now t = Inr t1" by (auto simp: monitor_trade_def)
  from monitor_equity_closed [OF this] a
  show "exit_date t1 = Val now"
    and "\<exists>p e q. cp = Num p \<and> entry_price t = Val e \<and> quantity t = Val q
              \<and> exit_price t1 = Val p \<and> profit t1 = Val ((p - e) * of_int q)"
    by blast+
next
  assume a: "monitor_trade mlp cp chain now t = Inr t2 \<and> status t = ''open''
      \<and> trade_type t = ''options'' \<and> status t2 = ''closed''"
  then have "monitor_options chain now t = Inr t2" by (auto simp: monitor_trade_def)
  from monitor_options_closed [OF this] a
  show "exit_date t2 = Val now" and "\<exists>pnl. profit t2 = Val pnl"
    and "exit_price t2 = exit_price t"
    by blast+
next
  assume "status t3 \<noteq> ''open''"
  then show "monitor_trade mlp cp chain now t3 = Inr t3" by (rule monitor_trade_settled)
next
  assume "list_all (\<lambda>t. status t = ''closed'') ts"
  then show "monitor_all mlp cp chain now ts = Inr ts" by (rule monitor_all_settled)
qed

text \<open>
  Against claim C7 as stated: the options position is closed at a loss of 250 and has
  no exit price.
\<close>

theorem options_close_without_exit_price_counterexample:
  "monitor_trade 0.20 PyNone moved_chain ''2026-11-03 10:00:00'' spread_trade
     = Inr (close_options ''2026-11-03 10:00:00'' (- 250) spread_trade)
   \<and> status spread_trade = ''open''
   \<and> status (close_options ''2026-11-03 10:00:00'' (- 250) spread_trade) = ''closed''
   \<and> exit_price (close_options ''2026-11-03 10:00:00'' (- 250) spread_trade) = Missing"
proof (intro conjI)
  show "monitor_trade 0.20 PyNone moved_chain ''2026-11-03 10:00:00'' spread_trade
     = Inr (close_options ''2026-11-03 10:00:00'' (- 250) spread_trade)"
    unfolding spread_dispatch by (rule spread_moved)
  show "status spread_trade = ''open''" by (rule spread_fields)
  show "status (close_options ''2026-11-03 10:00:00'' (- 250) spread_trade) = ''closed''"
    by (simp add: close_options_def)
  show "exit_price (close_options ''2026-11-03 10:00:00'' (- 250) spread_trade) = Missing"
    by (simp add: close_options_def spread_fields)
qed

lemma closed_fields:
  "status (closed_position now) = ''closed''" "exit_date (closed_position now) = Val now"
  "exit_price (closed_position now) = Val 106" "profit (closed_position now) = Val 120"
  by (simp_all add: closed_position_def)

theorem closed_positions_final_witness:
  "monitor_trade 0.20 (Num 106) [] ''2026-11-03 10:00:00'' (trailed_position 20)
     = Inr (closed_position ''2026-11-03 10:00:00'')
   \<and> exit_date (closed_position ''2026-11-03 10:00:00'') = Val ''2026-11-03 10:00:00''
   \<and> (\<exists>p e q. Num 106 = Num p \<and> entry_price (trailed_position 20) = Val e
          \<and> quantity (trailed_position 20) = Val q
          \<and> exit_price (closed_position ''2026-11-03 10:00:00'') = Val p
          \<and> profit (closed_position ''2026-11-03 10:00:00'') = Val ((p - e) * of_int q))
   \<and> monitor_trade 0.20 PyNone moved_chain ''2026-11-03 10:00:00'' spread_trade
     = Inr (close_options ''2026-11-03 10:00:00'' (- 250) spread_trade)
   \<and> exit_date (close_options ''2026-11-03 10:00:00'' (- 250) spread_trade)
       = Val ''2026-11-03 10:00:00''
   \<and> (\<exists>pnl. profit (close_options ''2026-11-03 10:00:00'' (- 250) spread_trade) = Val pnl)
   \<and> monitor_trade 0.20 (Num 90) moved_chain ''2026-11-04 10:00:00''
        (closed_position ''2026-11-03 10:00:00'')
     = Inr (closed_position ''2026-11-03 10:00:00'')
   \<and> monitor_all 0.20 (Num 90) moved_chain ''2026-11-04 10:00:00''
        [closed_position ''2026-11-03 10:00:00'']
     = Inr [closed_position ''2026-11-03 10:00:00'']"
proof -
  have e: "monitor_trade 0.20 (Num 106) [] ''2026-11-03 10:00:00'' (trailed_position 20)
     = Inr (closed_position ''2026-11-03 10:00:00'')"
    using example_close [of "''2026-11-03 10:00:00''" 20]
    by (simp add: monitor_trade_def trailed_fields closed_position_def)
  have o: "monitor_trade 0.20 PyNone moved_chain ''2026-11-03 10:00:00'' spread_trade
     = Inr (close_options ''2026-11-03 10:00:00'' (- 250) spread_trade)"
    unfolding spread_dispatch by (rule spread_moved)
  have oc: "status (close_options ''2026-11-03 10:00:00'' (- 250) spread_trade) = ''closed''"
    by (simp add: close_options_def)
  have 1: "exit_date (closed_position ''2026-11-03 10:00:00'') = Val ''2026-11-03 10:00:00''
     \<and> (\<exists>p e q. Num 106 = Num p \<and> entry_price (trailed_position 20) = Val e
          \<and> quantity (trailed_position 20) = Val q
          \<and> exit_price (closed_position ''2026-11-03 10:00:00'') = Val p
          \<and> profit (closed_position ''2026-11-03 10:00:00'') = Val ((p - e) * of_int q))"
    using closed_positions_final
            [where mlp = "0.20" and cp = "Num 106" and chain = "[]"
               and now = "''2026-11-03 10:00:00''" and t = "trailed_position 20"
               and ?t1.0 = "closed_position ''2026-11-03 10:00:00''",
             THEN conjunct1, THEN mp]
          e trailed_fields closed_fields by blast
  have 2: "exit_date (close_options ''2026-11-03 10:00:00'' (- 250) spread_trade)
             = Val ''2026-11-03 10:00:00''
     \<and> (\<exists>pnl. profit (close_options ''2026-11-03 10:00:00'' (- 250) spread_trade) = Val pnl)"
    using closed_positions_final
            [where mlp = "0.20" and cp = PyNone and chain = moved_chain
               and now = "''2026-11-03 10:00:00''" and t = spread_trade
               and ?t2.0 = "close_options ''2026-11-03 10:00:00'' (- 250) spread_trade",
             THEN conjunct2, THEN conjunct1, THEN mp]
          o oc spread_fields by blast
  have ne: "status (closed_position ''2026-11-03 10:00:00'') \<noteq> ''open''"
    by (simp add: closed_fields)
  have 3: "monitor_trade 0.20 (Num 90) moved_chain ''2026-11-04 10:00:00''
        (closed_position ''2026-11-03 10:00:00'')
     = Inr (closed_position ''2026-11-03 10:00:00'')"
    using closed_positions_final
            [where mlp = "0.20" and cp = "Num 90" and chain = moved_chain
               and now = "''2026-11-04 10:00:00''"
               and ?t3.0 = "closed_position ''2026-11-03 10:00:00''",
             THEN conjunct2, THEN conjunct2, THEN conjunct1, THEN mp, OF ne] .
  have la: "list_all (\<lambda>t. status t = ''closed'') [closed_position ''2026-11-03 10:00:00'']"
    by (simp add: closed_fields)
  have 4: "monitor_all 0.20 (Num 90) moved_chain ''2026-11-04 10:00:00''
        [closed_position ''2026-11-03 10:00:00'']
     = Inr [closed_position ''2026-11-03 10:00:00'']"
    using closed_positions_final
            [where mlp = "0.20" and cp = "Num 90" and chain = moved_chain
               and now = "''2026-11-04 10:00:00''"
               and ts = "[closed_position ''2026-11-03 10:00:00'']",
             THEN conjunct2, THEN conjunct2, THEN conjunct2, THEN mp, OF la] .
  show ?thesis using e o 1 2 3 4 by blast
qed

text \<open>
  The trailing stop through \<^verbatim>\<open>monitor_positions\<close>. The price of every turn is that of the
  strategy's own snapshot, which is \<^verbatim>\<open>None\<close> for every history, so line 346 raises on the
  first open equity trade and the list is not saved.
\<close>

lemma snapshot_price: "price (get_technical_signals hist) = PyNone"
  by (simp add: get_technical_signals_null null_snapshot_def)

lemma monitor_equity_no_price: "\<exists>e. monitor_equity mlp PyNone now t = Inl e"
  by (cases "entry_price t") (simp_all add: monitor_equity_def item_def subscript_def need_def)

lemma monitor_all_open_equity:
  "list_ex (\<lambda>t. status t = ''open'' \<and> trade_type t = ''equity'') trades
     \<Longrightarrow> \<exists>e. monitor_all mlp PyNone chain now trades = Inl e"
proof (induction trades)
  case Nil
  then show ?case by simp
next
  case (Cons t ts)
  show ?case
  proof (cases "status t = ''open'' \<and> trade_type t = ''equity''")
    case True
    then have "monitor_trade mlp PyNone chain now t = monitor_equity mlp PyNone now t"
      by (simp add: monitor_trade_def)
    with monitor_equity_no_price [of mlp now t] show ?thesis by auto
  next
    case False
    with Cons.prems have "list_ex (\<lambda>t. status t = ''open'' \<and> trade_type t = ''equity'') ts"
      by simp
    from Cons.IH [OF this] obtain e where "monitor_all mlp PyNone chain now ts = Inl e" ..
    then show ?thesis by (cases "monitor_trade mlp PyNone chain now t") simp_all
  qed
qed

lemma monitor_trade_no_price:
  assumes "monitor_trade mlp PyNone chain now t = Inr t'"
  shows "stop_loss t' = stop_loss t \<and> (trade_type t = ''equity'' \<longrightarrow> t' = t)"
proof (cases "status t = ''open''")
  case False
  with assms show ?thesis by (simp add: monitor_trade_def)
next
  case True
  show ?thesis
  proof (cases "trade_type t = ''equity''")
    case True
    with \<open>status t = ''open''\<close> assms monitor_equity_no_price [of mlp now t]
    show ?thesis by (auto simp: monitor_trade_def)
  next
    case False
    show ?thesis
    proof (cases "trade_type t = ''options''")
      case True
      with False \<open>status t = ''open''\<close> assms
      have "monitor_options chain now t = Inr t'" by (simp add: monitor_trade_def)
      from monitor_options_result [OF this] False show ?thesis
        by (auto simp: close_options_def)
    next
      case other: False
      with False \<open>status t = ''open''\<close> assms show ?thesis by (simp add: monitor_trade_def)
    qed
  qed
qed

lemma monitor_all_no_price:
  "monitor_all mlp PyNone chain now trades = Inr trades'
     \<Longrightarrow> list_all2 (\<lambda>t t'. stop_loss t' = stop_loss t \<and> (trade_type t = ''equity'' \<longrightarrow> t' = t))
           trades trades'"
proof (induction trades arbitrary: trades')
  case Nil
  then show ?case by simp
next
  case (Cons t ts)
  from Cons.prems obtain t1 ts1 where
    1: "monitor_trade mlp PyNone chain now t = Inr t1" and
    2: "monitor_all mlp PyNone chain now ts = Inr ts1" and
    3: "trades' = t1 # ts1"
    by (auto simp: bindE_eq_Inr)
  from monitor_trade_no_price [OF 1] Cons.IH [OF 2] 3 show ?case by simp
qed

lemma example_no_price:
  "monitor_positions mlp hist chain now [example_position q] = Inl TypeError"
  by (simp add: monitor_positions_def snapshot_price monitor_trade_def monitor_equity_def
        example_position_def item_def subscript_def need_def)

text \<open>
  Claim C10, on the code. Lines 344 to 359 do trail the stop when they are handed a
  price: with entry 100 and stop 95 the price 112 raises the stop to 106.4, and the price
  106 then closes the position at 106 with the profit \<open>(106 - 100) * quantity\<close>. But
  \<^verbatim>\<open>monitor_positions\<close> takes the price from \<^verbatim>\<open>get_technical_signals\<close>, which is \<^verbatim>\<open>None\<close> for
  every history: on the position of the example it raises TypeError, on every store with
  an open equity trade it raises, and when it returns, no stop has moved and no equity
  trade has changed. No monitoring cycle raises a stop or closes an equity position.
\<close>

theorem trailing_stop_never_reached:
  "monitor_positions mlp hist chain now [example_position q] = Inl TypeError
   \<and> (list_ex (\<lambda>t. status t = ''open'' \<and> trade_type t = ''equity'') trades
        \<longrightarrow> (\<exists>e. monitor_positions mlp hist chain now trades = Inl e))
   \<and> (monitor_positions mlp hist chain now trades = Inr trades'
        \<longrightarrow> list_all2 (\<lambda>t t'. stop_loss t' = stop_loss t
                                 \<and> (trade_type t = ''equity'' \<longrightarrow> t' = t)) trades trades')
   \<and> monitor_equity 0.20 (Num 112) now (example_position q) = Inr (trailed_position q)
   \<and> stop_loss (trailed_position q) = Val 106.4
   \<and> monitor_equity 0.20 (Num 106) now (trailed_position q) =
       Inr ((trailed_position q)\<lparr>status := ''closed'', exit_date := Val now,
              exit_price := Val 106, profit := Val ((106 - 100) * of_int q)\<rparr>)"
proof (intro conjI impI)
  show "monitor_positions mlp hist chain now [example_position q] = Inl TypeError"
    by (rule example_no_price)
next
  assume "list_ex (\<lambda>t. status t = ''open'' \<and> trade_type t = ''equity'') trades"
  then show "\<exists>e. monitor_positions mlp hist chain now trades = Inl e"
    unfolding monitor_positions_def snapshot_price by (rule monitor_all_open_equity)
next
  assume "monitor_positions mlp hist chain now trades = Inr trades'"
  then show "list_all2 (\<lambda>t t'. stop_loss t' = stop_loss t
                                 \<and> (trade_type t = ''equity'' \<longrightarrow> t' = t)) trades trades'"
    unfolding monitor_positions_def snapshot_price by (rule monitor_all_no_price)
next
  show "monitor_equity 0.20 (Num 112) now (example_position q) = Inr (trailed_position q)"
    by (rule example_trail)
  show "stop_loss (trailed_position q) = Val 106.4"
    by (simp add: trailed_position_def)
  show "monitor_equity 0.20 (Num 106) now (trailed_position q) =
       Inr ((trailed_position q)\<lparr>status := ''closed'', exit_date := Val now,
              exit_price := Val 106, profit := Val ((106 - 100) * of_int q)\<rparr>)"
    by (rule example_close)
qed

lemma spread_positions:
  "monitor_positions 0.20 None moved_chain ''2026-11-03 10:00:00'' [spread_trade]
     = Inr [close_options ''2026-11-03 10:00:00'' (- 250) spread_trade]"
  by (simp add: monitor_positions_def spread_dispatch spread_moved)

theorem trailing_stop_never_reached_witness:
  "list_ex (\<lambda>t. status t = ''open'' \<and> trade_type t = ''equity'') [example_position 20]
   \<and> (\<exists>e. monitor_positions 0.20 None [] ''2026-11-03 10:00:00'' [example_position 20]
            = Inl e)
   \<and> monitor_positions 0.20 None moved_chain ''2026-11-03 10:00:00'' [spread_trade]
       = Inr [close_options ''2026-11-03 10:00:00'' (- 250) spread_trade]
   \<and> list_all2 (\<lambda>t t'. stop_loss t' = stop_loss t \<and> (trade_type t = ''equity'' \<longrightarrow> t' = t))
       [spread_trade] [close_options ''2026-11-03 10:00:00'' (- 250) spread_trade]"
proof -
  have h: "list_ex (\<lambda>t. status t = ''open'' \<and> trade_type t = ''equity'')
             [example_position 20]"
    by (simp add: example_fields)
  have a: "\<exists>e. monitor_positions 0.20 None [] ''2026-11-03 10:00:00'' [example_position 20]
            = Inl e"
    by (rule trailing_stop_never_reached
               [where mlp = "0.20" and hist = None and chain = "[]"
                  and now = "''2026-11-03 10:00:00''" and q = 20
                  and trades = "[example_position 20]" and trades' = "[]",
                THEN conjunct2, THEN conjunct1, THEN mp, OF h])
  have b: "list_all2 (\<lambda>t t'. stop_loss t' = stop_loss t \<and> (trade_type t = ''equity'' \<longrightarrow> t' = t))
       [spread_trade] [close_options ''2026-11-03 10:00:00'' (- 250) spread_trade]"
    by (rule trailing_stop_never_reached
               [where mlp = "0.20" and hist = None and chain = moved_chain
                  and now = "''2026-11-03 10:00:00''" and q = 20
                  and trades = "[spread_trade]"
                  and trades' = "[close_options ''2026-11-03 10:00:00'' (- 250) spread_trade]",
                THEN conjunct2, THEN conjunct2, THEN conjunct1, THEN mp, OF spread_positions])
  show ?thesis using h a b spread_positions by blast
qed

subsection \<open>Monitoring through the portfolio manager\<close>

lemma no_monitor_position:
  "getattr TradingStrategy_attrs ''monitor_position'' = Inl (AttributeError ''monitor_position'')"
  by (simp add: getattr_def TradingStrategy_attrs_def)

lemma no_calculate_options_pnl:
  "getattr TradingStrategy_attrs ''calculate_options_pnl''
     = Inl (AttributeError ''calculate_options_pnl'')"
  by (simp add: getattr_def TradingStrategy_attrs_def)

lemma loop_raises:
  "list_ex (\<lambda>t. status t = ''open'' \<and> symbol t \<in> set reg) ts \<Longrightarrow>
   \<exists>e summ upd. monitor_portfolio_loop TradingStrategy_attrs impl reg ts (avail, summ0, upd0)
      = (Some e, avail, summ, upd)"
proof (induction ts arbitrary: summ0 upd0)
  case Nil
  then show ?case by simp
next
  case (Cons t ts)
  show ?case
  proof (cases "symbol t \<in> set reg")
    case False
    with Cons show ?thesis by simp
  next
    case reg: True
    show ?thesis
    proof (cases "status t = ''open''")
      case True
      with reg show ?thesis by (simp add: no_monitor_position Let_def)
    next
      case False
      with reg Cons.prems have ex: "list_ex (\<lambda>t. status t = ''open'' \<and> symbol t \<in> set reg) ts"
        by simp
      show ?thesis
      proof (cases "profit t")
        case Missing
        with reg False show ?thesis by (simp add: item_def subscript_def need_def Let_def)
      next
        case Null
        with reg False show ?thesis by (simp add: item_def subscript_def need_def Let_def)
      next
        case (Val pr)
        with reg False Cons.IH [OF ex] show ?thesis
          by (simp add: item_def subscript_def need_def Let_def)
      qed
    qed
  qed
qed

lemma loop_raises_attribute:
  "list_ex (\<lambda>t. status t = ''open'' \<and> symbol t \<in> set reg) ts \<Longrightarrow>
   list_all (\<lambda>t. symbol t \<in> set reg \<and> status t \<noteq> ''open'' \<longrightarrow> (\<exists>p. profit t = Val p)) ts \<Longrightarrow>
   \<exists>summ upd. monitor_portfolio_loop TradingStrategy_attrs impl reg ts (avail, summ0, upd0)
      = (Some (AttributeError ''monitor_position''), avail, summ, upd)"
proof (induction ts arbitrary: summ0 upd0)
  case Nil
  then show ?case by simp
next
  case (Cons t ts)
  show ?case
  proof (cases "symbol t \<in> set reg")
    case False
    with Cons show ?thesis by simp
  next
    case reg: True
    show ?thesis
    proof (cases "status t = ''open''")
      case True
      with reg show ?thesis by (simp add: no_monitor_position Let_def)
    next
      case False
      with reg Cons.prems have ex: "list_ex (\<lambda>t. status t = ''open'' \<and> symbol t \<in> set reg) ts"
        and al: "list_all (\<lambda>t. symbol t \<in> set reg \<and> status t \<noteq> ''open''
                               \<longrightarrow> (\<exists>p. profit t = Val p)) ts"
        and "\<exists>p. profit t = Val p"
        by simp_all
      then obtain pr where "profit t = Val pr" by auto
      with reg False Cons.IH [OF ex al] show ?thesis
        by (simp add: item_def subscript_def need_def Let_def)
    qed
  qed
qed

text \<open>Without the method no turn of the loop changes the capital or closes a trade.\<close>

lemma loop_keeps:
  "monitor_portfolio_loop TradingStrategy_attrs impl reg ts (avail, summ0, upd0)
      = (r, avail', summ, upd) \<Longrightarrow>
   avail' = avail \<and> set upd \<subseteq> set upd0 \<union> set ts"
proof (induction ts arbitrary: summ0 upd0)
  case Nil
  then show ?case by simp
next
  case (Cons t ts)
  show ?case
  proof (cases "symbol t \<in> set reg")
    case False
    with Cons.prems have
      "monitor_portfolio_loop TradingStrategy_attrs impl reg ts (avail, summ0, upd0)
         = (r, avail', summ, upd)" by simp
    from Cons.IH [OF this] show ?thesis by auto
  next
    case reg: True
    show ?thesis
    proof (cases "status t = ''open''")
      case True
      with reg Cons.prems show ?thesis by (auto simp: no_monitor_position Let_def)
    next
      case False
      show ?thesis
      proof (cases "profit t")
        case Missing
        with reg False Cons.prems show ?thesis
          by (auto simp: item_def subscript_def need_def Let_def)
      next
        case Null
        with reg False Cons.prems show ?thesis
          by (auto simp: item_def subscript_def need_def Let_def)
      next
        case (Val pr)
        with reg False Cons.prems have
          "monitor_portfolio_loop TradingStrategy_attrs impl reg ts
             (avail, summ0\<lparr>closed_positions := closed_positions summ0 @ [t],
                           total_profit_loss := total_profit_loss summ0 + pr\<rparr>,
              upd0 @ [t]) = (r, avail', summ, upd)"
          by (simp add: item_def subscript_def need_def Let_def)
        from Cons.IH [OF this] show ?thesis by auto
      qed
    qed
  qed
qed

lemma monitor_portfolio_raises:
  assumes "list_ex (\<lambda>t. status t = ''open'' \<and> symbol t \<in> set reg) (store l)"
  shows "\<exists>e. monitor_portfolio TradingStrategy_attrs impl reg l = (Inl e, l)"
proof -
  from loop_raises [OF assms] obtain e summ upd where
    "monitor_portfolio_loop TradingStrategy_attrs impl reg (store l)
       (available_capital l,
        \<lparr>total_positions = 0, total_profit_loss = 0,
         open_positions = [], closed_positions = []\<rparr>, [])
     = (Some e, available_capital l, summ, upd)" by blast
  then show ?thesis by (simp add: monitor_portfolio_def)
qed

lemma monitor_portfolio_raises_attribute:
  assumes "list_ex (\<lambda>t. status t = ''open'' \<and> symbol t \<in> set reg) (store l)"
      and "list_all (\<lambda>t. symbol t \<in> set reg \<and> status t \<noteq> ''open''
                         \<longrightarrow> (\<exists>p. profit t = Val p)) (store l)"
  shows "monitor_portfolio TradingStrategy_attrs impl reg l
           = (Inl (AttributeError ''monitor_position''), l)"
proof -
  from loop_raises_attribute [OF assms] obtain summ upd where
    "monitor_portfolio_loop TradingStrategy_attrs impl reg (store l)
       (available_capital l,
        \<lparr>total_positions = 0, total_profit_loss = 0,
         open_positions = [], closed_positions = []\<rparr>, [])
     = (Some (AttributeError ''monitor_position''), available_capital l, summ, upd)" by blast
  then show ?thesis by (simp add: monitor_portfolio_def)
qed

lemma monitor_portfolio_keeps:
  "available_capital (snd (monitor_portfolio TradingStrategy_attrs impl reg l))
     = available_capital l
   \<and> set (store (snd (monitor_portfolio TradingStrategy_attrs impl reg l))) \<subseteq> set (store l)"
proof -
  obtain r avail' summ upd where
    loop: "monitor_portfolio_loop TradingStrategy_attrs impl reg (store l)
       (available_capital l,
        \<lparr>total_positions = 0, total_profit_loss = 0,
         open_positions = [], closed_positions = []\<rparr>, [])
     = (r, avail', summ, upd)" by (metis prod_cases4)
  from loop_keeps [OF loop] have k: "avail' = available_capital l" "set upd \<subseteq> set (store l)"
    by auto
  show ?thesis
    using loop k by (cases r) (simp_all add: monitor_portfolio_def)
qed

lemma unrealized_raises:
  "list_ex (\<lambda>t. symbol t \<in> set reg) ts \<Longrightarrow>
   \<exists>e. unrealized_loop TradingStrategy_attrs impl m reg ts acc = Inl e"
proof (induction ts arbitrary: acc)
  case Nil
  then show ?case by simp
next
  case (Cons t ts)
  show ?case
  proof (cases "symbol t \<in> set reg")
    case False
    with Cons show ?thesis by simp
  next
    case True
    then show ?thesis
      by (cases "entry_price t")
         (simp_all add: no_calculate_options_pnl snapshot_price subscript_def arith_def Let_def)
  qed
qed

lemma unrealized_raises_attribute:
  "list_ex (\<lambda>t. symbol t \<in> set reg) ts \<Longrightarrow>
   list_all (\<lambda>t. symbol t \<in> set reg \<longrightarrow> trade_type t \<noteq> ''equity'') ts \<Longrightarrow>
   unrealized_loop TradingStrategy_attrs impl m reg ts acc
     = Inl (AttributeError ''calculate_options_pnl'')"
proof (induction ts arbitrary: acc)
  case Nil
  then show ?case by simp
next
  case (Cons t ts)
  show ?case
  proof (cases "symbol t \<in> set reg")
    case False
    with Cons show ?thesis by simp
  next
    case True
    with Cons.prems show ?thesis by (simp add: no_calculate_options_pnl)
  qed
qed

lemma list_ex_filter: "list_ex P (filter Q xs) \<longleftrightarrow> list_ex (\<lambda>x. Q x \<and> P x) xs"
  by (induction xs) auto

lemma list_all_filter: "list_all P (filter Q xs) \<longleftrightarrow> list_all (\<lambda>x. Q x \<longrightarrow> P x) xs"
  by (induction xs) auto

lemma total_of_profits_ok:
  "list_all (\<lambda>t. \<exists>p. profit t = Val p) ts \<Longrightarrow> \<exists>x. total_of_profits ts = Inr x"
  by (induction ts) (auto simp: subscript_def)

lemma count_winners_ok:
  "list_all (\<lambda>t. \<exists>p. profit t = Val p) ts \<Longrightarrow> \<exists>n. count_winners ts = Inr n"
  by (induction ts) auto

lemma stats_raise:
  assumes "list_ex (\<lambda>t. status t = ''open'' \<and> symbol t \<in> set reg) (store l)"
  shows "\<exists>e. get_portfolio_stats TradingStrategy_attrs impl m reg l = Inl e"
proof -
  from assms have ne: "store l \<noteq> []" by auto
  from assms have "list_ex (\<lambda>t. symbol t \<in> set reg) (filter (\<lambda>t. status t = ''open'') (store l))"
    by (simp add: list_ex_filter)
  from unrealized_raises [OF this] obtain e where
    "unrealized_loop TradingStrategy_attrs impl m reg
       (filter (\<lambda>t. status t = ''open'') (store l)) (Num 0) = Inl e" by blast
  with ne show ?thesis
    by (cases "total_of_profits (filter (\<lambda>t. status t = ''closed'') (store l))";
        cases "count_winners (filter (\<lambda>t. status t = ''closed'') (store l))")
       (simp_all add: get_portfolio_stats_def Let_def)
qed

lemma stats_raise_attribute:
  assumes "list_ex (\<lambda>t. status t = ''open'' \<and> symbol t \<in> set reg) (store l)"
      and "list_all (\<lambda>t. status t = ''closed'' \<longrightarrow> (\<exists>p. profit t = Val p)) (store l)"
      and "list_all (\<lambda>t. status t = ''open'' \<and> symbol t \<in> set reg \<longrightarrow> trade_type t \<noteq> ''equity'')
             (store l)"
  shows "get_portfolio_stats TradingStrategy_attrs impl m reg l
           = Inl (AttributeError ''calculate_options_pnl'')"
proof -
  from assms have ne: "store l \<noteq> []" by auto
  from assms(1) have 1: "list_ex (\<lambda>t. symbol t \<in> set reg)
                           (filter (\<lambda>t. status t = ''open'') (store l))"
    by (simp add: list_ex_filter)
  from assms(3) have 2: "list_all (\<lambda>t. symbol t \<in> set reg \<longrightarrow> trade_type t \<noteq> ''equity'')
                           (filter (\<lambda>t. status t = ''open'') (store l))"
    by (simp add: list_all_filter list_all_iff)
  from assms(2) have c: "list_all (\<lambda>t. \<exists>p. profit t = Val p)
                        (filter (\<lambda>t. status t = ''closed'') (store l))"
    by (auto simp: list_all_iff)
  from total_of_profits_ok [OF c] obtain x where
    x: "total_of_profits (filter (\<lambda>t. status t = ''closed'') (store l)) = Inr x" by blast
  from count_winners_ok [OF c] obtain n where
    n: "count_winners (filter (\<lambda>t. status t = ''closed'') (store l)) = Inr n" by blast
  from unrealized_raises_attribute [OF 1 2]
  have "unrealized_loop TradingStrategy_attrs impl m reg
       (filter (\<lambda>t. status t = ''open'') (store l)) (Num 0)
          = Inl (AttributeError ''calculate_options_pnl'')" .
  with ne x n show ?thesis by (simp add: get_portfolio_stats_def Let_def)
qed

text \<open>
  Claim C3, as the code has it. When the store holds an open trade whose symbol has a
  strategy, \<^verbatim>\<open>monitor_portfolio\<close> ends in an exception and leaves the ledger as it was, and
  \<^verbatim>\<open>get_portfolio_stats\<close> ends in an exception too. The exception of \<^verbatim>\<open>monitor_portfolio\<close> is
  the AttributeError of the missing method \<^verbatim>\<open>monitor_position\<close> when every trade with a
  strategy that is not open holds a profit, and that of \<^verbatim>\<open>get_portfolio_stats\<close> is the
  AttributeError of the missing method \<^verbatim>\<open>calculate_options_pnl\<close> when every closed trade
  holds a profit and the open trades with a strategy are options trades. Whatever the
  store, \<^verbatim>\<open>monitor_portfolio\<close> leaves the available capital unchanged and saves only trades
  that were in the store already: it closes no position and releases no capital. \<^verbatim>\<open>impl\<close>
  and \<^verbatim>\<open>pnl\<close> stand for what the two missing methods would return.
\<close>

theorem monitoring_always_raises:
  "(list_ex (\<lambda>t. status t = ''open'' \<and> symbol t \<in> set reg) (store l) \<longrightarrow>
      (\<exists>e. monitor_portfolio TradingStrategy_attrs impl reg l = (Inl e, l))
      \<and> (\<exists>e. get_portfolio_stats TradingStrategy_attrs pnl m reg l = Inl e))
   \<and> (list_ex (\<lambda>t. status t = ''open'' \<and> symbol t \<in> set reg) (store l)
       \<and> list_all (\<lambda>t. symbol t \<in> set reg \<and> status t \<noteq> ''open'' \<longrightarrow> (\<exists>p. profit t = Val p))
            (store l) \<longrightarrow>
      monitor_portfolio TradingStrategy_attrs impl reg l
        = (Inl (AttributeError ''monitor_position''), l))
   \<and> (list_ex (\<lambda>t. status t = ''open'' \<and> symbol t \<in> set reg) (store l)
       \<and> list_all (\<lambda>t. status t = ''closed'' \<longrightarrow> (\<exists>p. profit t = Val p)) (store l)
       \<and> list_all (\<lambda>t. status t = ''open'' \<and> symbol t \<in> set reg \<longrightarrow> trade_type t \<noteq> ''equity'')
            (store l) \<longrightarrow>
      get_portfolio_stats TradingStrategy_attrs pnl m reg l
        = Inl (AttributeError ''calculate_options_pnl''))
   \<and> available_capital (snd (monitor_portfolio TradingStrategy_attrs impl reg l))
        = available_capital l
   \<and> set (store (snd (monitor_portfolio TradingStrategy_attrs impl reg l))) \<subseteq> set (store l)"
  using monitor_portfolio_raises stats_raise monitor_portfolio_raises_attribute
    stats_raise_attribute monitor_portfolio_keeps
  by blast

lemma example_ledger_store:
  "store example_ledger = [closed_position ''2026-11-03 10:00:00'', spread_trade]"
  by (simp add: example_ledger_def)

lemma example_ledger_open:
  "list_ex (\<lambda>t. status t = ''open'' \<and> symbol t \<in> set [''AAPL'']) (store example_ledger)"
  by (simp add: example_ledger_store spread_trade_def)

lemma example_ledger_profits:
  "list_all (\<lambda>t. symbol t \<in> set [''AAPL''] \<and> status t \<noteq> ''open'' \<longrightarrow> (\<exists>p. profit t = Val p))
     (store example_ledger)"
  by (simp add: example_ledger_store closed_fields spread_fields)

lemma example_ledger_closed:
  "list_all (\<lambda>t. status t = ''closed'' \<longrightarrow> (\<exists>p. profit t = Val p)) (store example_ledger)"
  by (simp add: example_ledger_store closed_fields spread_fields)

lemma example_ledger_options:
  "list_all (\<lambda>t. status t = ''open'' \<and> symbol t \<in> set [''AAPL''] \<longrightarrow> trade_type t \<noteq> ''equity'')
     (store example_ledger)"
  by (simp add: example_ledger_store closed_fields spread_fields)

theorem monitoring_always_raises_witness:
  "list_ex (\<lambda>t. status t = ''open'' \<and> symbol t \<in> set [''AAPL'']) (store example_ledger)
   \<and> monitor_portfolio TradingStrategy_attrs (\<lambda>t. Inr t) [''AAPL''] example_ledger
        = (Inl (AttributeError ''monitor_position''), example_ledger)
   \<and> get_portfolio_stats TradingStrategy_attrs (\<lambda>t. Inr (Num 0)) quiet_market [''AAPL'']
        example_ledger
        = Inl (AttributeError ''calculate_options_pnl'')"
proof -
  note inst = monitoring_always_raises
                [where reg = "[''AAPL'']" and l = example_ledger and impl = "\<lambda>t. Inr t"
                   and pnl = "\<lambda>t. Inr (Num 0)" and m = quiet_market]
  have 1: "monitor_portfolio TradingStrategy_attrs (\<lambda>t. Inr t) [''AAPL''] example_ledger
        = (Inl (AttributeError ''monitor_position''), example_ledger)"
    using inst [THEN conjunct2, THEN conjunct1, THEN mp]
      example_ledger_open example_ledger_profits by blast
  have 2: "get_portfolio_stats TradingStrategy_attrs (\<lambda>t. Inr (Num 0)) quiet_market [''AAPL'']
        example_ledger
        = Inl (AttributeError ''calculate_options_pnl'')"
    using inst [THEN conjunct2, THEN conjunct2, THEN conjunct1, THEN mp]
      example_ledger_open example_ledger_closed example_ledger_options by blast
  show ?thesis using 1 2 example_ledger_open by blast
qed

text \<open>
  Against claim C3 as stated: a closed trade whose profit is \<^verbatim>\<open>null\<close> stands before the
  open options position. \<^verbatim>\<open>monitor_portfolio\<close> raises TypeError when it adds that profit to
  the total (line 120), before it reaches the open trade and the missing method, and
  \<^verbatim>\<open>get_portfolio_stats\<close> raises TypeError when it compares that profit with 0 (line 144).
\<close>

lemma unbooked_fields:
  "status unbooked_position = ''closed''" "profit unbooked_position = Null"
  "symbol unbooked_position = ''AAPL''"
  by (simp_all add: unbooked_position_def closed_position_def trailed_position_def
        example_position_def)

theorem null_profit_counterexample:
  "list_ex (\<lambda>t. status t = ''open'' \<and> symbol t \<in> set [''AAPL'']) (store unbooked_ledger)
   \<and> monitor_portfolio TradingStrategy_attrs unchanged [''AAPL''] unbooked_ledger
        = (Inl TypeError, unbooked_ledger)
   \<and> get_portfolio_stats TradingStrategy_attrs flat quiet_market [''AAPL''] unbooked_ledger
        = Inl TypeError"
proof (intro conjI)
  show "list_ex (\<lambda>t. status t = ''open'' \<and> symbol t \<in> set [''AAPL'']) (store unbooked_ledger)"
    by (simp add: unbooked_ledger_def spread_trade_def)
  show "monitor_portfolio TradingStrategy_attrs unchanged [''AAPL''] unbooked_ledger
        = (Inl TypeError, unbooked_ledger)"
    by (simp add: monitor_portfolio_def unbooked_ledger_def unbooked_fields item_def
          subscript_def need_def Let_def)
  show "get_portfolio_stats TradingStrategy_attrs flat quiet_market [''AAPL''] unbooked_ledger
        = Inl TypeError"
    by (simp add: get_portfolio_stats_def unbooked_ledger_def unbooked_fields spread_fields
          subscript_def Let_def)
qed

subsection \<open>The capital equation\<close>


lemma options_cost_and_release:
  "position_cost spread_trade = Inr 300"
  "released (close_options now 75 spread_trade) = Inr 75"
  by (simp_all add: position_cost_def released_def spread_trade_def close_options_def
        item_def subscript_def need_def)












end
